theory Spec2Isabelle
  imports Complex_Main "HOL-Library.Multiset"
begin

section \<open>Data model\<close>

text \<open>
  Python \<^verbatim>\<open>int\<close> is \<^typ>\<open>int\<close>; Python \<^verbatim>\<open>float\<close> is idealised as \<^typ>\<open>real\<close>
  (no rounding, no infinities), except for the prices of the execution gateway, which
  can also be \<^verbatim>\<open>nan\<close>; \<^verbatim>\<open>str\<close> is \<^typ>\<open>string\<close>.
\<close>

text \<open>
  Modelled from the spec: the \<^verbatim>\<open>InstrumentRef\<close> model class of \<^verbatim>\<open>models.py\<close>, the
  identity of a tradable instrument: its symbol and its exchange id.
\<close>

record instrument_ref =
  symbol :: string
  exchange_id :: string

text \<open>
  Modelled from the spec: the \<^verbatim>\<open>Candle\<close> model class, whose declaration is in
  \<^verbatim>\<open>models.py\<close>; the fields are the keyword arguments the loaders construct it with.
\<close>

record candle =
  c_ts :: int
  c_instrument :: instrument_ref
  c_open :: real
  c_high :: real
  c_low :: real
  c_close :: real
  c_volume :: real
  c_interval :: string

text \<open>A Python exception value; only its being raised matters here.\<close>

datatype py_exception = Exception string

text \<open>
  The candle cache \<^verbatim>\<open>{symbol: {interval: [Candle, ...]}}\<close>. The \<^verbatim>\<open>defaultdict\<close> only
  creates entries on \<^verbatim>\<open>cache[symbol][interval] = ...\<close>; the reads in the queries use
  \<^verbatim>\<open>.get\<close>, which never inserts.
\<close>

type_synonym candle_cache = "string \<rightharpoonup> (string \<rightharpoonup> candle list)"

definition cache_get :: "candle_cache \<Rightarrow> string \<Rightarrow> string \<Rightarrow> candle list" where
  \<comment> \<open>\<^verbatim>\<open>self._candle_cache.get(symbol, {}).get(interval, [])\<close>\<close>
  "cache_get cache smb iv =
     (case cache smb of
        None \<Rightarrow> []
      | Some by_interval \<Rightarrow> (case by_interval iv of None \<Rightarrow> [] | Some cs \<Rightarrow> cs))"

definition cache_set :: "candle_cache \<Rightarrow> string \<Rightarrow> string \<Rightarrow> candle list \<Rightarrow> candle_cache" where
  \<comment> \<open>\<^verbatim>\<open>self._candle_cache[symbol][interval] = cs\<close> on the nested \<^verbatim>\<open>defaultdict\<close>\<close>
  "cache_set cache smb iv cs =
     cache(smb \<mapsto> (case cache smb of None \<Rightarrow> Map.empty | Some by_interval \<Rightarrow> by_interval)(iv \<mapsto> cs))"

definition py_slice_from :: "'a list \<Rightarrow> int \<Rightarrow> 'a list" where
  \<comment> \<open>Python \<^verbatim>\<open>xs[start:]\<close>: a negative start counts from the end, and both are clipped.\<close>
  "py_slice_from xs start =
     (let n = int (length xs);
          s = (if start < 0 then max 0 (n + start) else min start n)
      in drop (nat s) xs)"

subsection \<open>BacktestDataSource (backtest.py)\<close>

record backtest_ds =
  bt_exchange_id :: string
  bt_symbols :: "string list"
  bt_start_ts :: int
  bt_end_ts :: int
  bt_current_ts :: int
  bt_candle_cache :: candle_cache
  bt_is_preloaded :: bool

definition bt_init :: "string \<Rightarrow> string list \<Rightarrow> int \<Rightarrow> int \<Rightarrow> backtest_ds" where
  \<comment> \<open>\<^verbatim>\<open>BacktestDataSource.__init__\<close>; the snapshot cache is never read or written again.\<close>
  "bt_init exch syms start stop =
     \<lparr> bt_exchange_id = (if exch = [] then ''okx'' else exch),
       bt_symbols = syms,
       bt_start_ts = start,
       bt_end_ts = stop,
       bt_current_ts = start,
       bt_candle_cache = Map.empty,
       bt_is_preloaded = False \<rparr>"

definition bt_recent_of :: "backtest_ds \<Rightarrow> string \<Rightarrow> int \<Rightarrow> string \<Rightarrow> candle list" where
  \<comment> \<open>the body of the loop of \<^verbatim>\<open>get_recent_candles\<close> for one symbol\<close>
  "bt_recent_of ds iv lookback smb =
     (let candles = cache_get (bt_candle_cache ds) smb iv;
          available = filter (\<lambda>c. c_ts c \<le> bt_current_ts ds) candles
      in if available \<noteq> [] then py_slice_from available (- lookback) else [])"

definition bt_get_recent_candles :: "backtest_ds \<Rightarrow> string list \<Rightarrow> string \<Rightarrow> int \<Rightarrow> candle list" where
  "bt_get_recent_candles ds syms iv lookback =
     foldl (\<lambda>result smb. result @ bt_recent_of ds iv lookback smb) [] syms"

record price_record =
  p_symbol :: string
  p_timestamp :: int
  p_last :: real
  p_close :: real
  p_open :: real
  p_high :: real
  p_low :: real
  p_volume :: "real option"

definition bt_get_market_snapshot :: "backtest_ds \<Rightarrow> string list \<Rightarrow> (string \<rightharpoonup> price_record)" where
  \<comment> \<open>the crypto snapshot has no volume entry\<close>
  "bt_get_market_snapshot ds syms =
     foldl (\<lambda>snapshot smb.
        let candles = cache_get (bt_candle_cache ds) smb ''1m'';
            available = filter (\<lambda>c. c_ts c \<le> bt_current_ts ds) candles
        in if available \<noteq> [] then
             (let latest = last available
              in snapshot(smb \<mapsto> \<lparr> p_symbol = smb, p_timestamp = c_ts latest,
                   p_last = c_close latest, p_close = c_close latest, p_open = c_open latest,
                   p_high = c_high latest, p_low = c_low latest, p_volume = None \<rparr>))
           else snapshot) Map.empty syms"

definition bt_advance_time :: "int \<Rightarrow> backtest_ds \<Rightarrow> backtest_ds" where
  "bt_advance_time interval_ms ds = ds\<lparr> bt_current_ts := bt_current_ts ds + interval_ms \<rparr>"

definition bt_is_finished :: "backtest_ds \<Rightarrow> bool" where
  "bt_is_finished ds = (bt_current_ts ds \<ge> bt_end_ts ds)"

definition bt_get_progress_pct :: "backtest_ds \<Rightarrow> real" where
  "bt_get_progress_pct ds =
     (if bt_end_ts ds \<le> bt_start_ts ds then 100
      else (let elapsed = bt_current_ts ds - bt_start_ts ds;
                total = bt_end_ts ds - bt_start_ts ds
            in min 100 ((real_of_int elapsed / real_of_int total) * 100)))"

definition bt_get_current_ts :: "backtest_ds \<Rightarrow> int" where
  "bt_get_current_ts ds = bt_current_ts ds"

definition bt_reset :: "backtest_ds \<Rightarrow> backtest_ds" where
  "bt_reset ds = ds\<lparr> bt_current_ts := bt_start_ts ds \<rparr>"

subsection \<open>StockBacktestDataSource (stock\_backtest.py)\<close>

record stock_backtest_ds =
  sb_symbols :: "string list"
  sb_start_ts :: int
  sb_end_ts :: int
  sb_current_ts :: int
  sb_candle_cache :: candle_cache
  sb_is_preloaded :: bool

definition sb_init :: "string list \<Rightarrow> int \<Rightarrow> int \<Rightarrow> stock_backtest_ds" where
  "sb_init syms start stop =
     \<lparr> sb_symbols = syms,
       sb_start_ts = start,
       sb_end_ts = stop,
       sb_current_ts = start,
       sb_candle_cache = Map.empty,
       sb_is_preloaded = False \<rparr>"

definition sb_recent_of :: "stock_backtest_ds \<Rightarrow> string \<Rightarrow> int \<Rightarrow> string \<Rightarrow> candle list" where
  "sb_recent_of ds iv lookback smb =
     (let candles = cache_get (sb_candle_cache ds) smb iv;
          available = filter (\<lambda>c. c_ts c \<le> sb_current_ts ds) candles
      in if available \<noteq> [] then py_slice_from available (- lookback) else [])"

definition sb_get_recent_candles :: "stock_backtest_ds \<Rightarrow> string list \<Rightarrow> string \<Rightarrow> int \<Rightarrow> candle list" where
  "sb_get_recent_candles ds syms iv lookback =
     foldl (\<lambda>result smb. result @ sb_recent_of ds iv lookback smb) [] syms"

definition sb_get_market_snapshot :: "stock_backtest_ds \<Rightarrow> string list \<Rightarrow> (string \<rightharpoonup> price_record)" where
  "sb_get_market_snapshot ds syms =
     foldl (\<lambda>snapshot smb.
        let candles = cache_get (sb_candle_cache ds) smb ''1d'';
            available = filter (\<lambda>c. c_ts c \<le> sb_current_ts ds) candles
        in if available \<noteq> [] then
             (let latest = last available
              in snapshot(smb \<mapsto> \<lparr> p_symbol = smb, p_timestamp = c_ts latest,
                   p_last = c_close latest, p_close = c_close latest, p_open = c_open latest,
                   p_high = c_high latest, p_low = c_low latest,
                   p_volume = Some (c_volume latest) \<rparr>))
           else snapshot) Map.empty syms"

definition sb_advance_time :: "int \<Rightarrow> stock_backtest_ds \<Rightarrow> stock_backtest_ds" where
  "sb_advance_time interval_ms ds = ds\<lparr> sb_current_ts := sb_current_ts ds + interval_ms \<rparr>"

definition sb_is_finished :: "stock_backtest_ds \<Rightarrow> bool" where
  "sb_is_finished ds = (sb_current_ts ds \<ge> sb_end_ts ds)"

definition sb_get_progress_pct :: "stock_backtest_ds \<Rightarrow> real" where
  "sb_get_progress_pct ds =
     (if sb_end_ts ds \<le> sb_start_ts ds then 100
      else (let elapsed = sb_current_ts ds - sb_start_ts ds;
                total = sb_end_ts ds - sb_start_ts ds
            in min 100 ((real_of_int elapsed / real_of_int total) * 100)))"

definition sb_get_current_ts :: "stock_backtest_ds \<Rightarrow> int" where
  "sb_get_current_ts ds = sb_current_ts ds"

definition sb_reset :: "stock_backtest_ds \<Rightarrow> stock_backtest_ds" where
  "sb_reset ds = ds\<lparr> sb_current_ts := sb_start_ts ds \<rparr>"

subsection \<open>The control surface as operations on the state\<close>

text \<open>
  One call on the replay state. The queries assign nothing to \<^verbatim>\<open>self\<close>, so the state
  after them is the state before; \<^verbatim>\<open>advance_time\<close> and \<^verbatim>\<open>reset\<close> are the two writers
  of \<^verbatim>\<open>_current_ts\<close>.
\<close>

datatype ds_call =
    AdvanceTime int
  | Reset
  | GetRecentCandles "string list" string int
  | GetMarketSnapshot "string list"
  | IsFinished
  | GetProgressPct
  | GetCurrentTs

fun bt_call :: "backtest_ds \<Rightarrow> ds_call \<Rightarrow> backtest_ds" where
  "bt_call ds (AdvanceTime d) = bt_advance_time d ds"
| "bt_call ds Reset = bt_reset ds"
| "bt_call ds _ = ds"

fun sb_call :: "stock_backtest_ds \<Rightarrow> ds_call \<Rightarrow> stock_backtest_ds" where
  "sb_call ds (AdvanceTime d) = sb_advance_time d ds"
| "sb_call ds Reset = sb_reset ds"
| "sb_call ds _ = ds"

fun forward_call :: "ds_call \<Rightarrow> bool" where
  \<comment> \<open>a call that is not \<^verbatim>\<open>reset\<close> and does not move the clock backwards\<close>
  "forward_call (AdvanceTime d) = (0 \<le> d)"
| "forward_call Reset = False"
| "forward_call _ = True"

fun forward_or_reset :: "ds_call \<Rightarrow> bool" where
  "forward_or_reset Reset = True"
| "forward_or_reset c = forward_call c"

section \<open>Preloading\<close>

subsection \<open>String helpers\<close>

fun py_split :: "char \<Rightarrow> string \<Rightarrow> string list" where
  \<comment> \<open>\<^verbatim>\<open>s.split(sep)\<close> for a one-character separator: never empty, keeps empty parts\<close>
  "py_split sep [] = [[]]"
| "py_split sep (c # cs) =
     (if c = sep then [] # py_split sep cs
      else (case py_split sep cs of [] \<Rightarrow> [[c]] | part # parts \<Rightarrow> (c # part) # parts))"

definition py_replace :: "char \<Rightarrow> char \<Rightarrow> string \<Rightarrow> string" where
  "py_replace old new s = map (\<lambda>c. if c = old then new else c) s"

definition py_upper :: "string \<Rightarrow> string" where
  \<comment> \<open>\<^verbatim>\<open>s.upper()\<close> on ASCII text, which ticker symbols are\<close>
  "py_upper s =
     map (\<lambda>c. let n = (of_char c :: nat) in if 97 \<le> n \<and> n \<le> 122 then char_of (n - 32) else c) s"

definition bt_normalize_symbol :: "string \<Rightarrow> string" where
  "bt_normalize_symbol smb =
     (let base_symbol = py_replace (CHR ''-'') (CHR ''/'') smb
      in if CHR '':'' \<notin> set base_symbol then
           (case py_split (CHR ''/'') base_symbol of
              [p0, p1] \<Rightarrow> p0 @ ''/'' @ p1 @ '':'' @ p1
            | _ \<Rightarrow> base_symbol)
         else base_symbol)"

definition sb_normalize_symbol :: "string \<Rightarrow> string" where
  "sb_normalize_symbol smb =
     py_upper (if CHR ''-'' \<in> set smb then hd (py_split (CHR ''-'') smb) else smb)"

subsection \<open>Tasks and gather\<close>

text \<open>
  The outcome of awaiting a coroutine: \<open>None\<close> when it never completes, \<open>Some (Inl exc)\<close>
  when it raises, \<open>Some (Inr v)\<close> when it returns \<open>v\<close>.

  \<^verbatim>\<open>asyncio.gather(*tasks)\<close> raises as soon as one task raises, and otherwise waits for
  all of them. The only raises of the fetch tasks below are in their synchronous prefix,
  which runs in list order, so the exception delivered is the first one in list order.
\<close>

type_synonym 'a awaited = "(py_exception + 'a) option"

fun gather :: "'a awaited list \<Rightarrow> 'a list awaited" where
  "gather [] = Some (Inr [])"
| "gather (t # ts) =
     (case t of
        Some (Inl exc) \<Rightarrow> Some (Inl exc)
      | Some (Inr v) \<Rightarrow>
          (case gather ts of
             None \<Rightarrow> None
           | Some (Inl exc) \<Rightarrow> Some (Inl exc)
           | Some (Inr vs) \<Rightarrow> Some (Inr (v # vs)))
      | None \<Rightarrow>
          (case gather ts of
             Some (Inl exc) \<Rightarrow> Some (Inl exc)
           | _ \<Rightarrow> None))"

subsection \<open>BacktestDataSource.preload\_data\<close>

record ohlcv_row =
  r_ts :: int
  r_open :: real
  r_high :: real
  r_low :: real
  r_close :: real
  r_vol :: real

text \<open>
  The exchange client is external. One client instance is the function answering its
  successive \<^verbatim>\<open>fetch_ohlcv(symbol, timeframe, since, limit)\<close> calls: the first argument
  is the number of the call on that instance, the answer is an exception or a page of rows.
\<close>

type_synonym fetch_ohlcv = "nat \<Rightarrow> string \<Rightarrow> string \<Rightarrow> int \<Rightarrow> nat \<Rightarrow> py_exception + ohlcv_row list"

definition bt_row_candle :: "backtest_ds \<Rightarrow> string \<Rightarrow> string \<Rightarrow> ohlcv_row \<Rightarrow> candle" where
  "bt_row_candle ds smb iv row =
     \<lparr> c_ts = r_ts row,
       c_instrument = \<lparr> symbol = smb, exchange_id = bt_exchange_id ds \<rparr>,
       c_open = r_open row, c_high = r_high row, c_low = r_low row, c_close = r_close row,
       c_volume = r_vol row, c_interval = iv \<rparr>"

definition bt_take_rows :: "backtest_ds \<Rightarrow> string \<Rightarrow> string \<Rightarrow> ohlcv_row list \<Rightarrow> candle list" where
  \<comment> \<open>the \<^verbatim>\<open>for row in raw\<close> loop: it stops at the first row beyond \<^verbatim>\<open>end_ts\<close>\<close>
  "bt_take_rows ds smb iv raw =
     map (bt_row_candle ds smb iv) (takeWhile (\<lambda>row. \<not> r_ts row > bt_end_ts ds) raw)"

partial_function (option) bt_paginate ::
  "fetch_ohlcv \<Rightarrow> backtest_ds \<Rightarrow> string \<Rightarrow> string \<Rightarrow> nat \<Rightarrow> ohlcv_row list \<Rightarrow> candle list
     \<Rightarrow> (py_exception + candle list) option" where
  "bt_paginate fetch ds smb iv k raw candles =
     (if raw = [] then Some (Inr candles)
      else if r_ts (last raw) \<ge> bt_end_ts ds then Some (Inr (candles @ bt_take_rows ds smb iv raw))
      else (case fetch k (bt_normalize_symbol smb) iv (r_ts (last raw) + 1) 1000 of
              Inl exc \<Rightarrow> Some (Inl exc)
            | Inr raw' \<Rightarrow> bt_paginate fetch ds smb iv (Suc k) raw' (candles @ bt_take_rows ds smb iv raw)))"

definition bt_try_body :: "fetch_ohlcv \<Rightarrow> backtest_ds \<Rightarrow> string \<Rightarrow> string \<Rightarrow> (py_exception + candle list) option" where
  \<comment> \<open>the \<^verbatim>\<open>try\<close> block of \<^verbatim>\<open>_fetch_symbol\<close>\<close>
  "bt_try_body fetch ds smb iv =
     (case fetch 0 (bt_normalize_symbol smb) iv (bt_start_ts ds) 1000 of
        Inl exc \<Rightarrow> Some (Inl exc)
      | Inr raw \<Rightarrow> bt_paginate fetch ds smb iv 1 raw [])"

definition bt_fetch_symbol :: "(py_exception + fetch_ohlcv) \<Rightarrow> backtest_ds \<Rightarrow> string \<Rightarrow> string \<Rightarrow> candle list awaited" where
  \<comment> \<open>\<^verbatim>\<open>get_exchange_cls\<close> and the construction of the client come before the \<^verbatim>\<open>try\<close>:
      their exception leaves the task. Inside it every exception becomes \<^verbatim>\<open>[]\<close>. The
      \<^verbatim>\<open>finally\<close> block swallows what \<^verbatim>\<open>close\<close> raises.\<close>
  "bt_fetch_symbol client ds iv smb =
     (case client of
        Inl exc \<Rightarrow> Some (Inl exc)
      | Inr fetch \<Rightarrow>
          (case bt_try_body fetch ds smb iv of
             None \<Rightarrow> None
           | Some (Inl exc) \<Rightarrow> Some (Inr [])
           | Some (Inr candles) \<Rightarrow> Some (Inr candles)))"

definition bt_store :: "string \<Rightarrow> backtest_ds \<Rightarrow> string \<times> candle list \<Rightarrow> backtest_ds" where
  "bt_store iv ds entry =
     ds\<lparr> bt_candle_cache := cache_set (bt_candle_cache ds) (fst entry) iv (sort_key c_ts (snd entry)) \<rparr>"

definition bt_preload_interval :: "(nat \<Rightarrow> py_exception + fetch_ohlcv) \<Rightarrow> string \<Rightarrow> backtest_ds \<Rightarrow> backtest_ds awaited" where
  \<comment> \<open>\<open>clients j\<close> is the client that the task of the \<open>j\<close>-th symbol gets\<close>
  "bt_preload_interval clients iv ds =
     (let tasks = map (\<lambda>(j, smb). bt_fetch_symbol (clients j) ds iv smb) (enumerate 0 (bt_symbols ds))
      in case gather tasks of
           None \<Rightarrow> None
         | Some (Inl exc) \<Rightarrow> Some (Inl exc)
         | Some (Inr results) \<Rightarrow> Some (Inr (foldl (bt_store iv) ds (zip (bt_symbols ds) results))))"

text \<open>
  The loop over the intervals. The result is \<open>None\<close> when a pass never completes; otherwise
  the exception that left the loop, if any, and the state it left behind.
\<close>

fun bt_preload_intervals ::
  "(nat \<Rightarrow> nat \<Rightarrow> py_exception + fetch_ohlcv) \<Rightarrow> nat \<Rightarrow> string list \<Rightarrow> backtest_ds
     \<Rightarrow> (py_exception option \<times> backtest_ds) option" where
  "bt_preload_intervals world p [] ds = Some (None, ds)"
| "bt_preload_intervals world p (iv # ivs) ds =
     (case bt_preload_interval (world p) iv ds of
        None \<Rightarrow> None
      | Some (Inl exc) \<Rightarrow> Some (Some exc, ds)
      | Some (Inr ds') \<Rightarrow> bt_preload_intervals world (Suc p) ivs ds')"

definition bt_preload_data ::
  "(nat \<Rightarrow> nat \<Rightarrow> py_exception + fetch_ohlcv) \<Rightarrow> string list option \<Rightarrow> backtest_ds
     \<Rightarrow> (py_exception option \<times> backtest_ds) option" where
  \<comment> \<open>\<open>world p j\<close>: the client of the \<open>j\<close>-th symbol's task in the \<open>p\<close>-th pass\<close>
  "bt_preload_data world intervals ds =
     (if bt_is_preloaded ds then Some (None, ds)
      else
        (let ivs = (case intervals of None \<Rightarrow> [''1m''] | Some [] \<Rightarrow> [''1m''] | Some ivs \<Rightarrow> ivs)
         in case bt_preload_intervals world 0 ivs ds of
              None \<Rightarrow> None
            | Some (Some exc, ds') \<Rightarrow> Some (Some exc, ds')
            | Some (None, ds') \<Rightarrow> Some (None, ds'\<lparr> bt_is_preloaded := True \<rparr>)))"

subsection \<open>StockBacktestDataSource.preload\_data\<close>

record history_row =
  h_ts :: int
  h_open :: real
  h_high :: real
  h_low :: real
  h_close :: real
  h_volume :: real

text \<open>
  \<^verbatim>\<open>ticker.history(start, end, interval)\<close> of the external library, for the normalised
  symbol: an exception, \<^verbatim>\<open>None\<close>, or the rows of the frame (empty for an empty frame).
  A row carries its index already as \<^verbatim>\<open>int(idx.timestamp() * 1000)\<close>.
\<close>

type_synonym yf_history = "string \<Rightarrow> string \<Rightarrow> string \<Rightarrow> string \<Rightarrow> py_exception + history_row list option"

definition interval_map :: "string \<rightharpoonup> string" where
  "interval_map = map_of [(''1m'', ''1m''), (''5m'', ''5m''), (''15m'', ''15m''), (''30m'', ''30m''),
     (''1h'', ''1h''), (''1d'', ''1d''), (''1w'', ''1wk''), (''1M'', ''1mo'')]"

definition sb_row_candle :: "string \<Rightarrow> string \<Rightarrow> history_row \<Rightarrow> candle" where
  "sb_row_candle smb iv row =
     \<lparr> c_ts = h_ts row,
       c_instrument = \<lparr> symbol = smb, exchange_id = ''yfinance'' \<rparr>,
       c_open = h_open row, c_high = h_high row, c_low = h_low row, c_close = h_close row,
       c_volume = h_volume row, c_interval = iv \<rparr>"

definition sb_try_body ::
  "yf_history \<Rightarrow> string \<Rightarrow> string \<Rightarrow> string \<Rightarrow> stock_backtest_ds \<Rightarrow> string \<Rightarrow> string
     \<Rightarrow> py_exception + candle list" where
  "sb_try_body history start_str end_str yf_interval ds iv smb =
     (case history (sb_normalize_symbol smb) start_str end_str yf_interval of
        Inl exc \<Rightarrow> Inl exc
      | Inr None \<Rightarrow> Inr []
      | Inr (Some rows) \<Rightarrow>
          (if rows = [] then Inr []
           else Inr (map (sb_row_candle smb iv) (takeWhile (\<lambda>row. \<not> h_ts row > sb_end_ts ds) rows))))"

definition sb_fetch_symbol ::
  "yf_history \<Rightarrow> string \<Rightarrow> string \<Rightarrow> string \<Rightarrow> stock_backtest_ds \<Rightarrow> string \<Rightarrow> string \<Rightarrow> candle list" where
  \<comment> \<open>the whole body is inside the \<^verbatim>\<open>try\<close>: every exception becomes \<^verbatim>\<open>[]\<close>\<close>
  "sb_fetch_symbol history start_str end_str yf_interval ds iv smb =
     (case sb_try_body history start_str end_str yf_interval ds iv smb of
        Inl exc \<Rightarrow> []
      | Inr candles \<Rightarrow> candles)"

definition sb_store :: "string \<Rightarrow> stock_backtest_ds \<Rightarrow> string \<times> candle list \<Rightarrow> stock_backtest_ds" where
  "sb_store iv ds entry =
     ds\<lparr> sb_candle_cache := cache_set (sb_candle_cache ds) (fst entry) iv (sort_key c_ts (snd entry)) \<rparr>"

definition sb_preload_interval ::
  "(int \<Rightarrow> py_exception + string) \<Rightarrow> (nat \<Rightarrow> yf_history) \<Rightarrow> string \<Rightarrow> stock_backtest_ds
     \<Rightarrow> py_exception + stock_backtest_ds" where
  \<comment> \<open>\<open>utc_date ms\<close> is \<^verbatim>\<open>datetime.fromtimestamp(ms / 1000, tz=utc).strftime("%Y-%m-%d")\<close>,
      which raises for a timestamp outside the range of \<^verbatim>\<open>datetime\<close>; these two
      conversions are outside every \<^verbatim>\<open>try\<close>. \<open>histories j\<close> answers the \<open>j\<close>-th task.\<close>
  "sb_preload_interval utc_date histories iv ds =
     (let yf_interval = (case interval_map iv of None \<Rightarrow> ''1d'' | Some v \<Rightarrow> v)
      in case utc_date (sb_start_ts ds) of
           Inl exc \<Rightarrow> Inl exc
         | Inr start_str \<Rightarrow>
             (case utc_date (sb_end_ts ds) of
                Inl exc \<Rightarrow> Inl exc
              | Inr end_str \<Rightarrow>
                  (let results = map (\<lambda>(j, smb). sb_fetch_symbol (histories j) start_str end_str yf_interval ds iv smb)
                                     (enumerate 0 (sb_symbols ds))
                   in Inr (foldl (sb_store iv) ds (zip (sb_symbols ds) results)))))"

fun sb_preload_intervals ::
  "(int \<Rightarrow> py_exception + string) \<Rightarrow> (nat \<Rightarrow> nat \<Rightarrow> yf_history) \<Rightarrow> nat \<Rightarrow> string list
     \<Rightarrow> stock_backtest_ds \<Rightarrow> py_exception option \<times> stock_backtest_ds" where
  "sb_preload_intervals utc_date world p [] ds = (None, ds)"
| "sb_preload_intervals utc_date world p (iv # ivs) ds =
     (case sb_preload_interval utc_date (world p) iv ds of
        Inl exc \<Rightarrow> (Some exc, ds)
      | Inr ds' \<Rightarrow> sb_preload_intervals utc_date world (Suc p) ivs ds')"

definition sb_preload_data ::
  "(int \<Rightarrow> py_exception + string) \<Rightarrow> (nat \<Rightarrow> nat \<Rightarrow> yf_history) \<Rightarrow> string list option
     \<Rightarrow> stock_backtest_ds \<Rightarrow> py_exception option \<times> stock_backtest_ds" where
  "sb_preload_data utc_date world intervals ds =
     (if sb_is_preloaded ds then (None, ds)
      else
        (let ivs = (case intervals of None \<Rightarrow> [''1d''] | Some [] \<Rightarrow> [''1d''] | Some ivs \<Rightarrow> ivs)
         in case sb_preload_intervals utc_date world 0 ivs ds of
              (Some exc, ds') \<Rightarrow> (Some exc, ds')
            | (None, ds') \<Rightarrow> (None, ds'\<lparr> sb_is_preloaded := True \<rparr>)))"

section \<open>StockPaperExecutionGateway (stock\_paper\_trading.py)\<close>

subsection \<open>Models and the outside world\<close>

text \<open>
  A price that comes from outside (a \<^verbatim>\<open>Close\<close> of the price feed, an entry of the price
  map) and what is computed from it: a number, or the float \<^verbatim>\<open>nan\<close>. Every comparison
  with \<^verbatim>\<open>nan\<close> is false, \<^verbatim>\<open>nan\<close> is truthy, and arithmetic on \<^verbatim>\<open>nan\<close> gives \<^verbatim>\<open>nan\<close>.
  The numbers themselves are idealised as reals.
\<close>

datatype py_float = Num real | NaN

fun pf_le0 :: "py_float \<Rightarrow> bool" where
  \<comment> \<open>\<^verbatim>\<open>x <= 0\<close>\<close>
  "pf_le0 (Num x) = (x \<le> 0)"
| "pf_le0 NaN = False"

fun pf_gt0 :: "py_float \<Rightarrow> bool" where
  \<comment> \<open>\<^verbatim>\<open>x > 0\<close>\<close>
  "pf_gt0 (Num x) = (0 < x)"
| "pf_gt0 NaN = False"

fun pf_times :: "py_float \<Rightarrow> real \<Rightarrow> py_float" where
  "pf_times (Num x) k = Num (x * k)"
| "pf_times NaN k = NaN"

fun pf_plus :: "py_float \<Rightarrow> real \<Rightarrow> py_float" where
  "pf_plus (Num x) y = Num (x + y)"
| "pf_plus NaN y = NaN"

text \<open>
  Modelled from the spec: the \<^verbatim>\<open>TradeSide\<close> enumeration of \<^verbatim>\<open>models.py\<close>, a buy side and
  a sell side.
\<close>

datatype trade_side = BUY | SELL

text \<open>
  Modelled from the spec: the \<^verbatim>\<open>TxStatus\<close> enumeration of \<^verbatim>\<open>models.py\<close>, ``status in
  FILLED, REJECTED, ...''; the gateway produces only the first two.
\<close>

datatype tx_status = FILLED | REJECTED | OtherStatus string

text \<open>
  Modelled from the spec: \<^verbatim>\<open>TradeInstruction\<close> and \<^verbatim>\<open>TxResult\<close> of \<^verbatim>\<open>models.py\<close>, with
  the fields the gateway reads and writes; a field the gateway leaves out of a
  \<^verbatim>\<open>TxResult(...)\<close> call is optional and absent.
\<close>

record trade_instruction =
  inst_instruction_id :: string
  inst_instrument :: instrument_ref
  inst_side :: "trade_side option"
  inst_action :: "string option"
  inst_quantity :: real
  inst_max_slippage_bps :: "real option"
  inst_leverage :: "real option"
  inst_meta :: "(string \<times> string) list option"

record tx_result =
  tx_instruction_id :: string
  tx_instrument :: instrument_ref
  tx_side :: trade_side
  tx_requested_qty :: real
  tx_filled_qty :: real
  tx_avg_exec_price :: "py_float option"
  tx_slippage_bps :: "real option"
  tx_fee_cost :: "py_float option"
  tx_leverage :: "real option"
  tx_status :: tx_status
  tx_reason :: "string option"
  tx_meta :: "(string \<times> string) list option"

text \<open>\<^verbatim>\<open>datetime.now(eastern)\<close>: the weekday (Monday is 0) and the time of day.\<close>

record et_datetime =
  dt_weekday :: nat
  dt_hour :: nat
  dt_minute :: nat
  dt_second :: nat
  dt_microsecond :: nat

text \<open>
  What one \<^verbatim>\<open>yf.Ticker\<close> answers: the \<^verbatim>\<open>Close\<close> column of
  \<^verbatim>\<open>history(period="1d", interval="1m")\<close> (\<open>None\<close> for no frame), and the
  \<^verbatim>\<open>fast_info\<close> attribute (\<open>None\<close> when it is missing or falsy), whose entries may be
  missing.
\<close>

record yf_ticker =
  tk_history :: "py_exception + py_float list option"
  tk_fast_info :: "py_exception + (string \<rightharpoonup> py_float) option"

text \<open>
  The world the gateway runs in: the successive readings of the Eastern wall clock, the
  ticker that the \<open>k\<close>-th price lookup gets for a normalised symbol, and
  \<^verbatim>\<open>derive_side_from_action\<close> of \<^verbatim>\<open>models.py\<close>.
\<close>

record exec_env =
  wall_clock :: "nat \<Rightarrow> et_datetime"
  yf_ticker_of :: "nat \<Rightarrow> string \<Rightarrow> yf_ticker"
  derive_side_from_action :: "string option \<Rightarrow> trade_side option"

text \<open>What the gateway has asked of the world so far.\<close>

record io_log =
  clock_reads :: nat
  price_lookups :: "string list"

record gateway =
  gw_fee_bps :: real
  gw_fee_per_share :: real
  gw_slippage_bps :: real
  gw_enforce_market_hours :: bool
  gw_executed :: "trade_instruction list"

subsection \<open>Market hours\<close>

type_synonym time_of_day = "nat \<times> nat \<times> nat \<times> nat"

fun time_le :: "time_of_day \<Rightarrow> time_of_day \<Rightarrow> bool" where
  \<comment> \<open>the order of \<^verbatim>\<open>datetime.time\<close>: hour, minute, second, microsecond\<close>
  "time_le (h1, m1, s1, u1) (h2, m2, s2, u2) =
     (h1 < h2 \<or> (h1 = h2 \<and> (m1 < m2 \<or> (m1 = m2 \<and> (s1 < s2 \<or> (s1 = s2 \<and> u1 \<le> u2))))))"

definition time_of :: "et_datetime \<Rightarrow> time_of_day" where
  "time_of now = (dt_hour now, dt_minute now, dt_second now, dt_microsecond now)"

definition is_us_market_open :: "et_datetime \<Rightarrow> bool" where
  "is_us_market_open now =
     (if dt_weekday now \<ge> 5 then False
      else (let market_open = (9, 30, 0, 0); market_close = (16, 0, 0, 0); current_time = time_of now
            in time_le market_open current_time \<and> time_le current_time market_close))"

definition market_closed :: "exec_env \<Rightarrow> gateway \<Rightarrow> io_log \<Rightarrow> bool \<times> io_log" where
  \<comment> \<open>\<^verbatim>\<open>self._enforce_market_hours and not is_us_market_open()\<close>: the clock is read only
      when the hours are enforced\<close>
  "market_closed env gw io =
     (if gw_enforce_market_hours gw
      then (\<not> is_us_market_open (wall_clock env (clock_reads io)), io\<lparr> clock_reads := Suc (clock_reads io) \<rparr>)
      else (False, io))"

subsection \<open>Price lookup\<close>

definition first_truthy :: "py_float option list \<Rightarrow> py_float option" where
  \<comment> \<open>\<^verbatim>\<open>a or b or c\<close> on optional floats, then \<^verbatim>\<open>if price:\<close>; \<^verbatim>\<open>None\<close> and \<^verbatim>\<open>0.0\<close> are falsy\<close>
  "first_truthy vs = (case filter (\<lambda>v. v \<noteq> None \<and> v \<noteq> Some (Num 0)) vs of [] \<Rightarrow> None | v # _ \<Rightarrow> v)"

definition ticker_price :: "yf_ticker \<Rightarrow> py_float option" where
  \<comment> \<open>the body of \<^verbatim>\<open>_get_current_price\<close>, whose \<^verbatim>\<open>except\<close> turns every exception into \<^verbatim>\<open>None\<close>\<close>
  "ticker_price tk =
     (case tk_history tk of
        Inl exc \<Rightarrow> None
      | Inr data \<Rightarrow>
          (case data of
             Some (c # cs) \<Rightarrow> Some (last (c # cs))
           | _ \<Rightarrow>
              (case tk_fast_info tk of
                 Inl exc \<Rightarrow> None
               | Inr None \<Rightarrow> None
               | Inr (Some fast_info) \<Rightarrow>
                   first_truthy [fast_info ''last_price'', fast_info ''regular_market_price'',
                                 fast_info ''last_close''])))"

definition get_current_price :: "exec_env \<Rightarrow> io_log \<Rightarrow> string \<Rightarrow> py_float option \<times> io_log" where
  "get_current_price env io smb =
     (let normalized = (if CHR ''-'' \<in> set smb then py_upper (hd (py_split (CHR ''-'') smb)) else py_upper smb)
      in (ticker_price (yf_ticker_of env (length (price_lookups io)) normalized),
          io\<lparr> price_lookups := price_lookups io @ [smb] \<rparr>))"

definition fallback_price :: "(string \<rightharpoonup> py_float) \<Rightarrow> string \<Rightarrow> py_float" where
  \<comment> \<open>\<^verbatim>\<open>float(price_map.get(symbol, 0.0) or 0.0)\<close>\<close>
  "fallback_price price_map smb =
     (let v = (case price_map smb of None \<Rightarrow> Num 0 | Some p \<Rightarrow> p) in if v \<noteq> Num 0 then v else Num 0)"

definition ref_price_of :: "py_float option \<Rightarrow> (string \<rightharpoonup> py_float) \<Rightarrow> string \<Rightarrow> py_float" where
  \<comment> \<open>\<^verbatim>\<open>if ref_price is None or ref_price <= 0: ref_price = float(...)\<close>: the live price,
      or the fallback when the live price is \<^verbatim>\<open>None\<close> or compares \<^verbatim>\<open><= 0\<close>\<close>
  "ref_price_of live price_map smb =
     (case live of
        None \<Rightarrow> fallback_price price_map smb
      | Some p \<Rightarrow> if pf_le0 p then fallback_price price_map smb else p)"

subsection \<open>execute\<close>

definition resolve_side :: "exec_env \<Rightarrow> trade_instruction \<Rightarrow> trade_side" where
  "resolve_side env inst =
     (case inst_side inst of
        Some s \<Rightarrow> s
      | None \<Rightarrow> (case derive_side_from_action env (inst_action inst) of Some s \<Rightarrow> s | None \<Rightarrow> BUY))"

definition rejected :: "trade_instruction \<Rightarrow> trade_side \<Rightarrow> string \<Rightarrow> tx_result" where
  "rejected inst side reason =
     \<lparr> tx_instruction_id = inst_instruction_id inst,
       tx_instrument = inst_instrument inst,
       tx_side = side,
       tx_requested_qty = inst_quantity inst,
       tx_filled_qty = 0,
       tx_avg_exec_price = None,
       tx_slippage_bps = None,
       tx_fee_cost = None,
       tx_leverage = None,
       tx_status = REJECTED,
       tx_reason = Some reason,
       tx_meta = inst_meta inst \<rparr>"

definition slip_bps_of :: "gateway \<Rightarrow> trade_instruction \<Rightarrow> real" where
  \<comment> \<open>\<^verbatim>\<open>float(inst.max_slippage_bps or self._slippage_bps)\<close>: \<^verbatim>\<open>None\<close> and \<^verbatim>\<open>0\<close> are falsy\<close>
  "slip_bps_of gw inst =
     (case inst_max_slippage_bps inst of
        None \<Rightarrow> gw_slippage_bps gw
      | Some v \<Rightarrow> if v \<noteq> 0 then v else gw_slippage_bps gw)"

definition filled :: "gateway \<Rightarrow> trade_instruction \<Rightarrow> trade_side \<Rightarrow> py_float \<Rightarrow> tx_result" where
  "filled gw inst side ref_price =
     (let slip_bps = slip_bps_of gw inst;
          slip = slip_bps / 10000;
          exec_price = (if side = BUY then pf_times ref_price (1 + slip) else pf_times ref_price (1 - slip));
          qty = inst_quantity inst;
          notional = pf_times exec_price qty;
          fee_cost = pf_plus (pf_times notional (gw_fee_bps gw / 10000)) (qty * gw_fee_per_share gw)
      in \<lparr> tx_instruction_id = inst_instruction_id inst,
           tx_instrument = inst_instrument inst,
           tx_side = side,
           tx_requested_qty = qty,
           tx_filled_qty = qty,
           tx_avg_exec_price = Some exec_price,
           tx_slippage_bps = (if slip_bps > 0 then Some slip_bps else None),
           tx_fee_cost = (if pf_gt0 fee_cost then Some fee_cost else None),
           tx_leverage = inst_leverage inst,
           tx_status = FILLED,
           tx_reason = None,
           tx_meta = inst_meta inst \<rparr>)"

definition execute_inst ::
  "exec_env \<Rightarrow> (string \<rightharpoonup> py_float) \<Rightarrow> gateway \<times> io_log \<Rightarrow> trade_instruction \<Rightarrow> tx_result \<times> gateway \<times> io_log" where
  \<comment> \<open>the body of the \<^verbatim>\<open>for inst in instructions\<close> loop\<close>
  "execute_inst env price_map st inst =
     (let gw = fst st; io = snd st;
          gw1 = gw\<lparr> gw_executed := gw_executed gw @ [inst] \<rparr>;
          smb = symbol (inst_instrument inst);
          side = resolve_side env inst;
          gate = market_closed env gw io
      in if fst gate then (rejected inst side ''market_closed'', gw1, snd gate)
         else
           (let looked = get_current_price env (snd gate) smb;
                ref_price = ref_price_of (fst looked) price_map smb
            in if pf_le0 ref_price then (rejected inst side ''no_price_data'', gw1, snd looked)
               else (filled gw inst side ref_price, gw1, snd looked)))"

fun execute_loop ::
  "exec_env \<Rightarrow> (string \<rightharpoonup> py_float) \<Rightarrow> gateway \<times> io_log \<Rightarrow> trade_instruction list
     \<Rightarrow> tx_result list \<times> gateway \<times> io_log" where
  "execute_loop env price_map st [] = ([], st)"
| "execute_loop env price_map st (inst # rest) =
     (let step = execute_inst env price_map st inst;
          more = execute_loop env price_map (snd step) rest
      in (fst step # fst more, snd more))"

definition execute ::
  "('fv list \<Rightarrow> (string \<rightharpoonup> py_float)) \<Rightarrow> exec_env \<Rightarrow> gateway \<times> io_log \<Rightarrow> trade_instruction list
     \<Rightarrow> 'fv list option \<Rightarrow> tx_result list \<times> gateway \<times> io_log" where
  \<comment> \<open>the first argument is \<^verbatim>\<open>extract_price_map\<close> of \<^verbatim>\<open>utils.py\<close>\<close>
  "execute extract_price_map env st instructions market_features =
     (if instructions = [] then ([], st)
      else
        (let price_map = extract_price_map (case market_features of None \<Rightarrow> [] | Some fs \<Rightarrow> fs)
         in execute_loop env price_map st instructions))"

definition state_before ::
  "('fv list \<Rightarrow> (string \<rightharpoonup> py_float)) \<Rightarrow> exec_env \<Rightarrow> gateway \<times> io_log \<Rightarrow> trade_instruction list
     \<Rightarrow> 'fv list option \<Rightarrow> nat \<Rightarrow> gateway \<times> io_log" where
  \<comment> \<open>the gateway and the log when the loop reaches its \<open>i\<close>-th instruction\<close>
  "state_before extract_price_map env st instructions market_features i =
     snd (execute extract_price_map env st (take i instructions) market_features)"

section \<open>Specification predicates and example data\<close>

definition cache_sorted :: "candle_cache \<Rightarrow> bool" where
  \<comment> \<open>every stored series is ascending in its timestamps\<close>
  "cache_sorted cache =
     (\<forall>smb by_interval iv cs. cache smb = Some by_interval \<longrightarrow> by_interval iv = Some cs \<longrightarrow>
        sorted (map c_ts cs))"

text \<open>
  What the exchange client answers to one symbol's task. \<open>bt_serves\<close>: it answers the
  task's successive requests (the first from \<^verbatim>\<open>start_ts\<close>, each next one from the last
  timestamp of the page before, plus one) with exactly the given pages, the last of which
  ends the pagination (it is empty, or its last timestamp reaches \<^verbatim>\<open>end_ts\<close>).
  \<open>bt_breaks\<close>: it answers the requests with the given pages, none of which ends the
  pagination, and raises on the request after them.
\<close>

fun bt_pages_from ::
  "fetch_ohlcv \<Rightarrow> backtest_ds \<Rightarrow> string \<Rightarrow> string \<Rightarrow> nat \<Rightarrow> ohlcv_row list \<Rightarrow> ohlcv_row list list \<Rightarrow> bool" where
  "bt_pages_from fetch ds smb iv k raw [] = (raw = [] \<or> r_ts (last raw) \<ge> bt_end_ts ds)"
| "bt_pages_from fetch ds smb iv k raw (page # pages) =
     (raw \<noteq> [] \<and> r_ts (last raw) < bt_end_ts ds \<and>
      fetch k (bt_normalize_symbol smb) iv (r_ts (last raw) + 1) 1000 = Inr page \<and>
      bt_pages_from fetch ds smb iv (Suc k) page pages)"

definition bt_serves :: "fetch_ohlcv \<Rightarrow> backtest_ds \<Rightarrow> string \<Rightarrow> string \<Rightarrow> ohlcv_row list list \<Rightarrow> bool" where
  "bt_serves fetch ds smb iv pages =
     (case pages of
        [] \<Rightarrow> False
      | page # rest \<Rightarrow>
          fetch 0 (bt_normalize_symbol smb) iv (bt_start_ts ds) 1000 = Inr page \<and>
          bt_pages_from fetch ds smb iv 1 page rest)"

fun bt_breaks_from ::
  "fetch_ohlcv \<Rightarrow> backtest_ds \<Rightarrow> string \<Rightarrow> string \<Rightarrow> nat \<Rightarrow> ohlcv_row list \<Rightarrow> ohlcv_row list list
     \<Rightarrow> py_exception \<Rightarrow> bool" where
  "bt_breaks_from fetch ds smb iv k raw [] exc =
     (raw \<noteq> [] \<and> r_ts (last raw) < bt_end_ts ds \<and>
      fetch k (bt_normalize_symbol smb) iv (r_ts (last raw) + 1) 1000 = Inl exc)"
| "bt_breaks_from fetch ds smb iv k raw (page # pages) exc =
     (raw \<noteq> [] \<and> r_ts (last raw) < bt_end_ts ds \<and>
      fetch k (bt_normalize_symbol smb) iv (r_ts (last raw) + 1) 1000 = Inr page \<and>
      bt_breaks_from fetch ds smb iv (Suc k) page pages exc)"

definition bt_breaks ::
  "fetch_ohlcv \<Rightarrow> backtest_ds \<Rightarrow> string \<Rightarrow> string \<Rightarrow> ohlcv_row list list \<Rightarrow> py_exception \<Rightarrow> bool" where
  "bt_breaks fetch ds smb iv pages exc =
     (case pages of
        [] \<Rightarrow> fetch 0 (bt_normalize_symbol smb) iv (bt_start_ts ds) 1000 = Inl exc
      | page # rest \<Rightarrow>
          fetch 0 (bt_normalize_symbol smb) iv (bt_start_ts ds) 1000 = Inr page \<and>
          bt_breaks_from fetch ds smb iv 1 page rest exc)"

definition ex_candle :: "string \<Rightarrow> string \<Rightarrow> string \<Rightarrow> int \<Rightarrow> candle" where
  "ex_candle exch iv smb t =
     \<lparr> c_ts = t, c_instrument = \<lparr> symbol = smb, exchange_id = exch \<rparr>,
       c_open = 1, c_high = 2, c_low = 1, c_close = 2, c_volume = 5, c_interval = iv \<rparr>"

definition ex_loaded :: backtest_ds where
  \<comment> \<open>three cached minute bars, the clock advanced to the second one\<close>
  "ex_loaded =
     bt_advance_time 2000
       ((bt_init ''okx'' [''ETH-USDT''] 0 10000)
          \<lparr> bt_candle_cache :=
              cache_set Map.empty ''ETH-USDT'' ''1m''
                (map (ex_candle ''okx'' ''1m'' ''ETH-USDT'') [1000, 2000, 3000]) \<rparr>)"

definition ex_sloaded :: stock_backtest_ds where
  "ex_sloaded =
     sb_advance_time 2000
       ((sb_init [''QQQ''] 0 10000)
          \<lparr> sb_candle_cache :=
              cache_set Map.empty ''QQQ'' ''1d''
                (map (ex_candle ''yfinance'' ''1d'' ''QQQ'') [1000, 2000, 3000]) \<rparr>)"

definition ex_row :: "int \<Rightarrow> ohlcv_row" where
  "ex_row t = \<lparr> r_ts = t, r_open = 1, r_high = 2, r_low = 1, r_close = 2, r_vol = 5 \<rparr>"

definition ex_fetch_ok :: fetch_ohlcv where
  \<comment> \<open>two unsorted pages, the second asked for from 1001 and ending beyond \<^verbatim>\<open>end_ts\<close> = 10000\<close>
  "ex_fetch_ok k smb tf since limit =
     (if k = 0 \<and> since = 0 then Inr [ex_row 3000, ex_row 1000]
      else if k = 1 \<and> since = 1001 then Inr [ex_row 2000, ex_row 12000]
      else Inr [])"

definition ex_fetch_fail :: fetch_ohlcv where
  \<comment> \<open>one page is served, the request for the second raises\<close>
  "ex_fetch_fail k smb tf since limit =
     (if k = 0 then Inr [ex_row 500] else Inl (Exception ''network down''))"

definition ex_world :: "nat \<Rightarrow> nat \<Rightarrow> py_exception + fetch_ohlcv" where
  \<comment> \<open>the first symbol's client fails on its second page, the others answer\<close>
  "ex_world p j = (if j = 0 then Inr ex_fetch_fail else Inr ex_fetch_ok)"

definition ex_ds :: backtest_ds where
  "ex_ds = bt_init ''okx'' [''BTC-USDT'', ''ETH-USDT''] 0 10000"

definition ex_hrow :: "int \<Rightarrow> history_row" where
  "ex_hrow t = \<lparr> h_ts = t, h_open = 1, h_high = 2, h_low = 1, h_close = 2, h_volume = 5 \<rparr>"

definition ex_history_ok :: yf_history where
  "ex_history_ok smb start_str end_str yf_interval =
     Inr (Some [ex_hrow 3000, ex_hrow 1000, ex_hrow 2000, ex_hrow 12000])"

definition ex_history_fail :: yf_history where
  "ex_history_fail smb start_str end_str yf_interval = Inl (Exception ''network down'')"

definition ex_sworld :: "nat \<Rightarrow> nat \<Rightarrow> yf_history" where
  "ex_sworld p j = (if j = 0 then ex_history_fail else ex_history_ok)"

definition ex_utc_date :: "int \<Rightarrow> py_exception + string" where
  "ex_utc_date ms = Inr ''1970-01-01''"

definition ex_sds :: stock_backtest_ds where
  "ex_sds = sb_init [''QQQ'', ''SPY''] 0 10000"

definition ex_gw :: gateway where
  "ex_gw = \<lparr> gw_fee_bps = 10, gw_fee_per_share = 0, gw_slippage_bps = 10,
            gw_enforce_market_hours = True, gw_executed = [] \<rparr>"

definition ex_gw_free :: gateway where
  \<comment> \<open>no fees, market hours not enforced\<close>
  "ex_gw_free = \<lparr> gw_fee_bps = 0, gw_fee_per_share = 0, gw_slippage_bps = 10,
                 gw_enforce_market_hours = False, gw_executed = [] \<rparr>"

definition ex_io :: io_log where
  "ex_io = \<lparr> clock_reads = 0, price_lookups = [] \<rparr>"

definition ex_ticker :: yf_ticker where
  "ex_ticker = \<lparr> tk_history = Inr (Some [Num 99, Num 100]), tk_fast_info = Inr None \<rparr>"

definition ex_ticker_nan :: yf_ticker where
  \<comment> \<open>the last one-minute bar has no \<^verbatim>\<open>Close\<close> yet\<close>
  "ex_ticker_nan = \<lparr> tk_history = Inr (Some [Num 99, NaN]), tk_fast_info = Inr None \<rparr>"

definition ex_ticker_down :: yf_ticker where
  "ex_ticker_down = \<lparr> tk_history = Inl (Exception ''network down''), tk_fast_info = Inr None \<rparr>"

definition ex_env :: "et_datetime \<Rightarrow> yf_ticker \<Rightarrow> exec_env" where
  \<comment> \<open>a world whose clock always reads \<open>now\<close> and whose tickers all answer \<open>tk\<close>\<close>
  "ex_env now tk =
     \<lparr> wall_clock = (\<lambda>k. now), yf_ticker_of = (\<lambda>k smb. tk), derive_side_from_action = (\<lambda>a. None) \<rparr>"

definition ex_tuesday_10 :: et_datetime where
  "ex_tuesday_10 = \<lparr> dt_weekday = 1, dt_hour = 10, dt_minute = 0, dt_second = 0, dt_microsecond = 0 \<rparr>"

definition ex_tuesday_17 :: et_datetime where
  "ex_tuesday_17 = \<lparr> dt_weekday = 1, dt_hour = 17, dt_minute = 0, dt_second = 0, dt_microsecond = 0 \<rparr>"

definition ex_inst :: "trade_side \<Rightarrow> real option \<Rightarrow> trade_instruction" where
  "ex_inst sd slip =
     \<lparr> inst_instruction_id = ''i1'',
       inst_instrument = \<lparr> symbol = ''AAPL'', exchange_id = ''yfinance'' \<rparr>,
       inst_side = Some sd, inst_action = None, inst_quantity = 10,
       inst_max_slippage_bps = slip, inst_leverage = None, inst_meta = None \<rparr>"

definition ex_extract :: "unit list \<Rightarrow> (string \<rightharpoonup> py_float)" where
  "ex_extract features = Map.empty"

definition ex_run :: "gateway \<Rightarrow> et_datetime \<Rightarrow> yf_ticker \<Rightarrow> trade_instruction \<Rightarrow> tx_result" where
  \<comment> \<open>the result of executing one instruction in the world \<open>ex_env now tk\<close>\<close>
  "ex_run gw now tk inst = fst (execute ex_extract (ex_env now tk) (gw, ex_io) [inst] None) ! 0"

section \<open>Recent candles\<close>

lemma py_slice_from_subset: "set (py_slice_from xs k) \<subseteq> set xs"
  by (auto simp: py_slice_from_def Let_def dest: in_set_dropD)

lemma py_slice_from_zero: "py_slice_from xs 0 = xs"
  by (simp add: py_slice_from_def)

lemma py_slice_from_neg: "1 \<le> k \<Longrightarrow> py_slice_from xs (- k) = drop (length xs - nat k) xs"
  by (auto simp: py_slice_from_def Let_def max_def nat_diff_distrib' intro!: arg_cong2[where f=drop])

lemma foldl_append_concat: "foldl (\<lambda>result x. result @ f x) acc xs = acc @ concat (map f xs)"
  by (induction xs arbitrary: acc) auto

lemma bt_recent_of_ts: "c \<in> set (bt_recent_of ds iv lookback smb) \<Longrightarrow> c_ts c \<le> bt_current_ts ds"
  using py_slice_from_subset[of "filter (\<lambda>c. c_ts c \<le> bt_current_ts ds) (cache_get (bt_candle_cache ds) smb iv)" "- lookback"]
  by (auto simp: bt_recent_of_def Let_def split: if_splits)

lemma sb_recent_of_ts: "c \<in> set (sb_recent_of ds iv lookback smb) \<Longrightarrow> c_ts c \<le> sb_current_ts ds"
  using py_slice_from_subset[of "filter (\<lambda>c. c_ts c \<le> sb_current_ts ds) (cache_get (sb_candle_cache ds) smb iv)" "- lookback"]
  by (auto simp: sb_recent_of_def Let_def split: if_splits)

lemma ex_loaded_recent:
  "bt_get_recent_candles ex_loaded [''ETH-USDT''] ''1m'' 5 = map (ex_candle ''okx'' ''1m'' ''ETH-USDT'') [1000, 2000]"
  by (simp add: bt_get_recent_candles_def bt_recent_of_def ex_loaded_def bt_advance_time_def bt_init_def
      cache_get_def cache_set_def ex_candle_def py_slice_from_def)

lemma ex_sloaded_recent:
  "sb_get_recent_candles ex_sloaded [''QQQ''] ''1d'' 5 = map (ex_candle ''yfinance'' ''1d'' ''QQQ'') [1000, 2000]"
  by (simp add: sb_get_recent_candles_def sb_recent_of_def ex_sloaded_def sb_advance_time_def sb_init_def
      cache_get_def cache_set_def ex_candle_def py_slice_from_def)

text \<open>
  Claim C1 (no lookahead). For either data source, whatever the clock position, the
  symbols, the interval and the lookback (zero and negative ones included), every candle
  that \<^verbatim>\<open>get_recent_candles\<close> returns has a timestamp at most \<^verbatim>\<open>current_ts\<close>.
\<close>

theorem no_lookahead:
  "(\<forall>c \<in> set (bt_get_recent_candles ds syms iv lookback). c_ts c \<le> bt_current_ts ds) \<and>
   (\<forall>c \<in> set (sb_get_recent_candles sds syms' iv' lookback'). c_ts c \<le> sb_current_ts sds)"
  by (auto simp: bt_get_recent_candles_def sb_get_recent_candles_def foldl_append_concat
      dest: bt_recent_of_ts sb_recent_of_ts)

theorem no_lookahead_witness:
  "ex_candle ''okx'' ''1m'' ''ETH-USDT'' 2000 \<in> set (bt_get_recent_candles ex_loaded [''ETH-USDT''] ''1m'' 5) \<and>
   ex_candle ''okx'' ''1m'' ''ETH-USDT'' 3000 \<notin> set (bt_get_recent_candles ex_loaded [''ETH-USDT''] ''1m'' 5) \<and>
   c_ts (ex_candle ''okx'' ''1m'' ''ETH-USDT'' 2000) \<le> bt_current_ts ex_loaded \<and>
   ex_candle ''yfinance'' ''1d'' ''QQQ'' 2000 \<in> set (sb_get_recent_candles ex_sloaded [''QQQ''] ''1d'' 5) \<and>
   c_ts (ex_candle ''yfinance'' ''1d'' ''QQQ'' 2000) \<le> sb_current_ts ex_sloaded"
proof -
  have m1: "ex_candle ''okx'' ''1m'' ''ETH-USDT'' 2000 \<in> set (bt_get_recent_candles ex_loaded [''ETH-USDT''] ''1m'' 5)"
    by (simp add: ex_loaded_recent)
  have m2: "ex_candle ''yfinance'' ''1d'' ''QQQ'' 2000 \<in> set (sb_get_recent_candles ex_sloaded [''QQQ''] ''1d'' 5)"
    by (simp add: ex_sloaded_recent)
  have m3: "ex_candle ''okx'' ''1m'' ''ETH-USDT'' 3000 \<notin> set (bt_get_recent_candles ex_loaded [''ETH-USDT''] ''1m'' 5)"
    by (simp add: ex_loaded_recent ex_candle_def)
  have both: "(\<forall>c \<in> set (bt_get_recent_candles ex_loaded [''ETH-USDT''] ''1m'' 5). c_ts c \<le> bt_current_ts ex_loaded) \<and>
     (\<forall>c \<in> set (sb_get_recent_candles ex_sloaded [''QQQ''] ''1d'' 5). c_ts c \<le> sb_current_ts ex_sloaded)"
    by (rule no_lookahead)
  show ?thesis using m1 m2 m3 both by blast
qed

text \<open>
  Claim C10 (lookback zero). With \<^verbatim>\<open>lookback = 0\<close> the slice \<^verbatim>\<open>available[-0:]\<close> is the
  whole list, so \<^verbatim>\<open>get_recent_candles\<close> returns, symbol after symbol, all the cached
  candles with a timestamp at most \<^verbatim>\<open>current_ts\<close>; with \<^verbatim>\<open>lookback >= 1\<close> it returns, for
  each symbol, the last \<^verbatim>\<open>lookback\<close> of them.
\<close>

theorem lookback_zero_returns_all:
  "bt_get_recent_candles ds syms iv 0 =
     concat (map (\<lambda>smb. filter (\<lambda>c. c_ts c \<le> bt_current_ts ds) (cache_get (bt_candle_cache ds) smb iv)) syms) \<and>
   sb_get_recent_candles sds syms iv 0 =
     concat (map (\<lambda>smb. filter (\<lambda>c. c_ts c \<le> sb_current_ts sds) (cache_get (sb_candle_cache sds) smb iv)) syms) \<and>
   (1 \<le> lookback \<longrightarrow>
     bt_get_recent_candles ds syms iv lookback =
       concat (map (\<lambda>smb. let available = filter (\<lambda>c. c_ts c \<le> bt_current_ts ds) (cache_get (bt_candle_cache ds) smb iv)
                           in drop (length available - nat lookback) available) syms) \<and>
     sb_get_recent_candles sds syms iv lookback =
       concat (map (\<lambda>smb. let available = filter (\<lambda>c. c_ts c \<le> sb_current_ts sds) (cache_get (sb_candle_cache sds) smb iv)
                           in drop (length available - nat lookback) available) syms))"
  by (auto simp: bt_get_recent_candles_def sb_get_recent_candles_def foldl_append_concat
      bt_recent_of_def sb_recent_of_def Let_def py_slice_from_zero py_slice_from_neg
      intro!: arg_cong[where f=concat])

theorem lookback_zero_returns_all_witness:
  "(1::int) \<le> 1 \<and>
   bt_get_recent_candles ex_loaded [''ETH-USDT''] ''1m'' 0 = map (ex_candle ''okx'' ''1m'' ''ETH-USDT'') [1000, 2000] \<and>
   bt_get_recent_candles ex_loaded [''ETH-USDT''] ''1m'' 1 = map (ex_candle ''okx'' ''1m'' ''ETH-USDT'') [2000] \<and>
   sb_get_recent_candles ex_sloaded [''QQQ''] ''1d'' 0 = map (ex_candle ''yfinance'' ''1d'' ''QQQ'') [1000, 2000] \<and>
   sb_get_recent_candles ex_sloaded [''QQQ''] ''1d'' 1 = map (ex_candle ''yfinance'' ''1d'' ''QQQ'') [2000]"
  using lookback_zero_returns_all[of ex_loaded "[''ETH-USDT'']" "''1m''" ex_sloaded 1]
        lookback_zero_returns_all[of ex_loaded "[''QQQ'']" "''1d''" ex_sloaded 1]
  by (simp add: ex_loaded_def ex_sloaded_def bt_advance_time_def sb_advance_time_def bt_init_def sb_init_def
      cache_get_def cache_set_def ex_candle_def)

section \<open>The simulated clock\<close>

lemma bt_call_bounds: "bt_start_ts (bt_call ds c) = bt_start_ts ds \<and> bt_end_ts (bt_call ds c) = bt_end_ts ds"
  by (cases c) (simp_all add: bt_advance_time_def bt_reset_def)

lemma bt_call_inv:
  "forward_or_reset c \<Longrightarrow> bt_start_ts ds \<le> bt_current_ts ds \<Longrightarrow>
   bt_start_ts (bt_call ds c) \<le> bt_current_ts (bt_call ds c)"
  by (cases c) (simp_all add: bt_advance_time_def bt_reset_def)

lemma bt_call_mono: "forward_call c \<Longrightarrow> bt_current_ts ds \<le> bt_current_ts (bt_call ds c)"
  by (cases c) (simp_all add: bt_advance_time_def)

lemma bt_calls_bounds:
  "bt_start_ts (foldl bt_call ds calls) = bt_start_ts ds \<and> bt_end_ts (foldl bt_call ds calls) = bt_end_ts ds"
  by (induction calls arbitrary: ds) (simp_all add: bt_call_bounds)

lemma bt_calls_inv:
  "\<forall>c \<in> set calls. forward_or_reset c \<Longrightarrow> bt_start_ts ds \<le> bt_current_ts ds \<Longrightarrow>
   bt_start_ts ds \<le> bt_current_ts (foldl bt_call ds calls)"
proof (induction calls arbitrary: ds)
  case Nil
  then show ?case by simp
next
  case (Cons c calls)
  have "bt_start_ts (bt_call ds c) \<le> bt_current_ts (bt_call ds c)"
    using Cons.prems by (simp add: bt_call_inv)
  then have "bt_start_ts (bt_call ds c) \<le> bt_current_ts (foldl bt_call (bt_call ds c) calls)"
    using Cons.IH Cons.prems by simp
  then show ?case by (simp add: bt_call_bounds)
qed

lemma bt_calls_mono:
  "\<forall>c \<in> set calls. forward_call c \<Longrightarrow> bt_current_ts ds \<le> bt_current_ts (foldl bt_call ds calls)"
proof (induction calls arbitrary: ds)
  case Nil
  then show ?case by simp
next
  case (Cons c calls)
  have "bt_current_ts ds \<le> bt_current_ts (bt_call ds c)"
    using Cons.prems by (simp add: bt_call_mono)
  also have "\<dots> \<le> bt_current_ts (foldl bt_call (bt_call ds c) calls)"
    using Cons.IH Cons.prems by simp
  finally show ?case by simp
qed

lemma sb_call_bounds: "sb_start_ts (sb_call ds c) = sb_start_ts ds \<and> sb_end_ts (sb_call ds c) = sb_end_ts ds"
  by (cases c) (simp_all add: sb_advance_time_def sb_reset_def)

lemma sb_call_inv:
  "forward_or_reset c \<Longrightarrow> sb_start_ts ds \<le> sb_current_ts ds \<Longrightarrow>
   sb_start_ts (sb_call ds c) \<le> sb_current_ts (sb_call ds c)"
  by (cases c) (simp_all add: sb_advance_time_def sb_reset_def)

lemma sb_call_mono: "forward_call c \<Longrightarrow> sb_current_ts ds \<le> sb_current_ts (sb_call ds c)"
  by (cases c) (simp_all add: sb_advance_time_def)

lemma sb_calls_bounds:
  "sb_start_ts (foldl sb_call ds calls) = sb_start_ts ds \<and> sb_end_ts (foldl sb_call ds calls) = sb_end_ts ds"
  by (induction calls arbitrary: ds) (simp_all add: sb_call_bounds)

lemma sb_calls_inv:
  "\<forall>c \<in> set calls. forward_or_reset c \<Longrightarrow> sb_start_ts ds \<le> sb_current_ts ds \<Longrightarrow>
   sb_start_ts ds \<le> sb_current_ts (foldl sb_call ds calls)"
proof (induction calls arbitrary: ds)
  case Nil
  then show ?case by simp
next
  case (Cons c calls)
  have "sb_start_ts (sb_call ds c) \<le> sb_current_ts (sb_call ds c)"
    using Cons.prems by (simp add: sb_call_inv)
  then have "sb_start_ts (sb_call ds c) \<le> sb_current_ts (foldl sb_call (sb_call ds c) calls)"
    using Cons.IH Cons.prems by simp
  then show ?case by (simp add: sb_call_bounds)
qed

lemma sb_calls_mono:
  "\<forall>c \<in> set calls. forward_call c \<Longrightarrow> sb_current_ts ds \<le> sb_current_ts (foldl sb_call ds calls)"
proof (induction calls arbitrary: ds)
  case Nil
  then show ?case by simp
next
  case (Cons c calls)
  have "sb_current_ts ds \<le> sb_current_ts (sb_call ds c)"
    using Cons.prems by (simp add: sb_call_mono)
  also have "\<dots> \<le> sb_current_ts (foldl sb_call (sb_call ds c) calls)"
    using Cons.IH Cons.prems by simp
  finally show ?case by simp
qed

text \<open>
  Claim C5 as stated fails: \<^verbatim>\<open>advance_time\<close> adds its argument unchecked, so one call
  with a negative argument moves \<^verbatim>\<open>current_ts\<close> backwards and below \<^verbatim>\<open>start_ts\<close>,
  on both data sources.
\<close>

theorem clock_negative_advance_counterexample:
  "bt_current_ts (bt_call (bt_init ''okx'' [''BTC-USDT''] 0 10000) (AdvanceTime (- 1000)))
     < bt_start_ts (bt_call (bt_init ''okx'' [''BTC-USDT''] 0 10000) (AdvanceTime (- 1000))) \<and>
   bt_current_ts (bt_call (bt_init ''okx'' [''BTC-USDT''] 0 10000) (AdvanceTime (- 1000)))
     < bt_current_ts (bt_init ''okx'' [''BTC-USDT''] 0 10000) \<and>
   sb_current_ts (sb_call (sb_init [''QQQ''] 0 10000) (AdvanceTime (- 1000)))
     < sb_start_ts (sb_call (sb_init [''QQQ''] 0 10000) (AdvanceTime (- 1000))) \<and>
   sb_current_ts (sb_call (sb_init [''QQQ''] 0 10000) (AdvanceTime (- 1000)))
     < sb_current_ts (sb_init [''QQQ''] 0 10000)"
  by (simp add: bt_init_def sb_init_def bt_advance_time_def sb_advance_time_def)

text \<open>
  Claim C5, amended. A data source starts with \<^verbatim>\<open>current_ts = start_ts\<close>. Across every
  sequence of calls in which each \<^verbatim>\<open>advance_time\<close> has a non-negative argument,
  \<^verbatim>\<open>start_ts\<close> and \<^verbatim>\<open>end_ts\<close> stay what they are and \<^verbatim>\<open>start_ts <= current_ts\<close> keeps
  holding; if moreover the sequence has no \<^verbatim>\<open>reset\<close>, \<^verbatim>\<open>current_ts\<close> does not decrease;
  \<^verbatim>\<open>reset\<close> puts \<^verbatim>\<open>current_ts\<close> back to \<^verbatim>\<open>start_ts\<close>; and \<^verbatim>\<open>is_finished()\<close> is true
  exactly when \<^verbatim>\<open>current_ts >= end_ts\<close>.
\<close>

theorem clock_invariant_forward:
  "bt_current_ts (bt_init exch syms start stop) = bt_start_ts (bt_init exch syms start stop) \<and>
   sb_current_ts (sb_init syms start stop) = sb_start_ts (sb_init syms start stop) \<and>
   ((\<forall>c \<in> set calls. forward_or_reset c) \<and> bt_start_ts ds \<le> bt_current_ts ds \<longrightarrow>
      bt_start_ts (foldl bt_call ds calls) = bt_start_ts ds \<and>
      bt_end_ts (foldl bt_call ds calls) = bt_end_ts ds \<and>
      bt_start_ts (foldl bt_call ds calls) \<le> bt_current_ts (foldl bt_call ds calls)) \<and>
   ((\<forall>c \<in> set calls. forward_or_reset c) \<and> sb_start_ts sds \<le> sb_current_ts sds \<longrightarrow>
      sb_start_ts (foldl sb_call sds calls) = sb_start_ts sds \<and>
      sb_end_ts (foldl sb_call sds calls) = sb_end_ts sds \<and>
      sb_start_ts (foldl sb_call sds calls) \<le> sb_current_ts (foldl sb_call sds calls)) \<and>
   ((\<forall>c \<in> set calls. forward_call c) \<longrightarrow>
      bt_current_ts ds \<le> bt_current_ts (foldl bt_call ds calls) \<and>
      sb_current_ts sds \<le> sb_current_ts (foldl sb_call sds calls)) \<and>
   bt_current_ts (bt_call ds Reset) = bt_start_ts ds \<and>
   sb_current_ts (sb_call sds Reset) = sb_start_ts sds \<and>
   (bt_is_finished ds \<longleftrightarrow> bt_end_ts ds \<le> bt_current_ts ds) \<and>
   (sb_is_finished sds \<longleftrightarrow> sb_end_ts sds \<le> sb_current_ts sds)"
proof -
  have "bt_current_ts (bt_init exch syms start stop) = bt_start_ts (bt_init exch syms start stop)"
    by (simp add: bt_init_def)
  moreover have "sb_current_ts (sb_init syms start stop) = sb_start_ts (sb_init syms start stop)"
    by (simp add: sb_init_def)
  moreover have "bt_current_ts (bt_call ds Reset) = bt_start_ts ds"
    by (simp add: bt_reset_def)
  moreover have "sb_current_ts (sb_call sds Reset) = sb_start_ts sds"
    by (simp add: sb_reset_def)
  moreover have "bt_is_finished ds \<longleftrightarrow> bt_end_ts ds \<le> bt_current_ts ds"
    by (simp add: bt_is_finished_def)
  moreover have "sb_is_finished sds \<longleftrightarrow> sb_end_ts sds \<le> sb_current_ts sds"
    by (simp add: sb_is_finished_def)
  ultimately show ?thesis
    using bt_calls_bounds[of ds calls] sb_calls_bounds[of sds calls]
      bt_calls_inv[of calls ds] sb_calls_inv[of calls sds]
      bt_calls_mono[of calls ds] sb_calls_mono[of calls sds]
    by simp
qed

theorem clock_invariant_forward_witness:
  "list_all forward_call [AdvanceTime 3000, IsFinished, AdvanceTime 8000] \<and>
   list_all forward_or_reset [AdvanceTime 3000, IsFinished, AdvanceTime 8000] \<and>
   bt_start_ts (bt_init ''okx'' [''BTC-USDT''] 0 10000) \<le> bt_current_ts (bt_init ''okx'' [''BTC-USDT''] 0 10000) \<and>
   sb_start_ts (sb_init [''QQQ''] 0 10000) \<le> sb_current_ts (sb_init [''QQQ''] 0 10000) \<and>
   bt_start_ts (foldl bt_call (bt_init ''okx'' [''BTC-USDT''] 0 10000) [AdvanceTime 3000, IsFinished, AdvanceTime 8000])
     \<le> bt_current_ts (foldl bt_call (bt_init ''okx'' [''BTC-USDT''] 0 10000) [AdvanceTime 3000, IsFinished, AdvanceTime 8000]) \<and>
   sb_start_ts (foldl sb_call (sb_init [''QQQ''] 0 10000) [AdvanceTime 3000, IsFinished, AdvanceTime 8000])
     \<le> sb_current_ts (foldl sb_call (sb_init [''QQQ''] 0 10000) [AdvanceTime 3000, IsFinished, AdvanceTime 8000]) \<and>
   bt_current_ts (foldl bt_call (bt_init ''okx'' [''BTC-USDT''] 0 10000) [AdvanceTime 3000, IsFinished, AdvanceTime 8000]) = 11000 \<and>
   bt_is_finished (foldl bt_call (bt_init ''okx'' [''BTC-USDT''] 0 10000) [AdvanceTime 3000, IsFinished, AdvanceTime 8000]) \<and>
   \<not> bt_is_finished (bt_call (bt_init ''okx'' [''BTC-USDT''] 0 10000) (AdvanceTime 3000))"
proof -
  have fwd: "\<forall>c \<in> set [AdvanceTime 3000, IsFinished, AdvanceTime 8000]. forward_call c"
    by simp
  have fwr: "\<forall>c \<in> set [AdvanceTime 3000, IsFinished, AdvanceTime 8000]. forward_or_reset c"
    by simp
  have b0: "bt_start_ts (bt_init ''okx'' [''BTC-USDT''] 0 10000) \<le> bt_current_ts (bt_init ''okx'' [''BTC-USDT''] 0 10000)"
    by (simp add: bt_init_def)
  have s0: "sb_start_ts (sb_init [''QQQ''] 0 10000) \<le> sb_current_ts (sb_init [''QQQ''] 0 10000)"
    by (simp add: sb_init_def)
  note inst = clock_invariant_forward[of "''okx''" "[''BTC-USDT'']" 0 10000
      "[AdvanceTime 3000, IsFinished, AdvanceTime 8000]" "bt_init ''okx'' [''BTC-USDT''] 0 10000"
      "sb_init [''QQQ''] 0 10000"]
  have inv: "bt_start_ts (foldl bt_call (bt_init ''okx'' [''BTC-USDT''] 0 10000) [AdvanceTime 3000, IsFinished, AdvanceTime 8000])
     \<le> bt_current_ts (foldl bt_call (bt_init ''okx'' [''BTC-USDT''] 0 10000) [AdvanceTime 3000, IsFinished, AdvanceTime 8000])"
    using inst fwr b0 by blast
  have sinv: "sb_start_ts (foldl sb_call (sb_init [''QQQ''] 0 10000) [AdvanceTime 3000, IsFinished, AdvanceTime 8000])
     \<le> sb_current_ts (foldl sb_call (sb_init [''QQQ''] 0 10000) [AdvanceTime 3000, IsFinished, AdvanceTime 8000])"
    using inst fwr s0 by blast
  have vals: "bt_current_ts (foldl bt_call (bt_init ''okx'' [''BTC-USDT''] 0 10000) [AdvanceTime 3000, IsFinished, AdvanceTime 8000]) = 11000 \<and>
     bt_is_finished (foldl bt_call (bt_init ''okx'' [''BTC-USDT''] 0 10000) [AdvanceTime 3000, IsFinished, AdvanceTime 8000]) \<and>
     \<not> bt_is_finished (bt_call (bt_init ''okx'' [''BTC-USDT''] 0 10000) (AdvanceTime 3000))"
    by (simp add: bt_init_def bt_advance_time_def bt_is_finished_def)
  have lists: "list_all forward_call [AdvanceTime 3000, IsFinished, AdvanceTime 8000] \<and>
     list_all forward_or_reset [AdvanceTime 3000, IsFinished, AdvanceTime 8000]"
    by simp
  show ?thesis using lists b0 s0 inv sinv vals by blast
qed

section \<open>Progress\<close>

lemma bt_progress_formula:
  "bt_start_ts ds < bt_end_ts ds \<Longrightarrow>
   bt_get_progress_pct ds =
     min 100 (100 * real_of_int (bt_current_ts ds - bt_start_ts ds) / real_of_int (bt_end_ts ds - bt_start_ts ds))"
  by (simp add: bt_get_progress_pct_def Let_def mult.commute)

lemma bt_progress_nonneg: "bt_start_ts ds \<le> bt_current_ts ds \<Longrightarrow> 0 \<le> bt_get_progress_pct ds"
  by (simp add: bt_get_progress_pct_def Let_def)

lemma bt_progress_le: "bt_get_progress_pct ds \<le> 100"
  by (simp add: bt_get_progress_pct_def Let_def)

lemma bt_progress_mono:
  "0 \<le> d \<Longrightarrow> bt_get_progress_pct ds \<le> bt_get_progress_pct (bt_advance_time d ds)"
  by (auto simp: bt_get_progress_pct_def bt_advance_time_def Let_def min_def divide_right_mono
      intro: order_trans)

lemma sb_progress_formula:
  "sb_start_ts ds < sb_end_ts ds \<Longrightarrow>
   sb_get_progress_pct ds =
     min 100 (100 * real_of_int (sb_current_ts ds - sb_start_ts ds) / real_of_int (sb_end_ts ds - sb_start_ts ds))"
  by (simp add: sb_get_progress_pct_def Let_def mult.commute)

lemma sb_progress_nonneg: "sb_start_ts ds \<le> sb_current_ts ds \<Longrightarrow> 0 \<le> sb_get_progress_pct ds"
  by (simp add: sb_get_progress_pct_def Let_def)

lemma sb_progress_le: "sb_get_progress_pct ds \<le> 100"
  by (simp add: sb_get_progress_pct_def Let_def)

lemma sb_progress_mono:
  "0 \<le> d \<Longrightarrow> sb_get_progress_pct ds \<le> sb_get_progress_pct (sb_advance_time d ds)"
  by (auto simp: sb_get_progress_pct_def sb_advance_time_def Let_def min_def divide_right_mono
      intro: order_trans)

text \<open>
  On every state with \<^verbatim>\<open>start_ts <= current_ts\<close>, which is every state that construction,
  \<^verbatim>\<open>reset\<close> and \<^verbatim>\<open>advance_time\<close> with non-negative arguments reach,
  \<^verbatim>\<open>get_progress_pct\<close> is what the specification says: 100 on a degenerate range, otherwise the
  clamp of \<^verbatim>\<open>100 * (current_ts - start_ts) / (end_ts - start_ts)\<close> to [0, 100]; and a
  non-negative advance never decreases it. (Floats are taken as reals.)
\<close>

lemma progress_pct_on_clock_invariant:
  "(bt_end_ts ds \<le> bt_start_ts ds \<longrightarrow> bt_get_progress_pct ds = 100) \<and>
   (bt_start_ts ds < bt_end_ts ds \<and> bt_start_ts ds \<le> bt_current_ts ds \<longrightarrow>
      bt_get_progress_pct ds =
        max 0 (min 100 (100 * real_of_int (bt_current_ts ds - bt_start_ts ds) / real_of_int (bt_end_ts ds - bt_start_ts ds)))) \<and>
   bt_get_progress_pct ds \<le> 100 \<and>
   (bt_start_ts ds \<le> bt_current_ts ds \<longrightarrow> 0 \<le> bt_get_progress_pct ds) \<and>
   (0 \<le> d \<longrightarrow> bt_get_progress_pct ds \<le> bt_get_progress_pct (bt_advance_time d ds)) \<and>
   (sb_end_ts sds \<le> sb_start_ts sds \<longrightarrow> sb_get_progress_pct sds = 100) \<and>
   (sb_start_ts sds < sb_end_ts sds \<and> sb_start_ts sds \<le> sb_current_ts sds \<longrightarrow>
      sb_get_progress_pct sds =
        max 0 (min 100 (100 * real_of_int (sb_current_ts sds - sb_start_ts sds) / real_of_int (sb_end_ts sds - sb_start_ts sds)))) \<and>
   sb_get_progress_pct sds \<le> 100 \<and>
   (sb_start_ts sds \<le> sb_current_ts sds \<longrightarrow> 0 \<le> sb_get_progress_pct sds) \<and>
   (0 \<le> d \<longrightarrow> sb_get_progress_pct sds \<le> sb_get_progress_pct (sb_advance_time d sds))"
proof -
  have b1: "bt_end_ts ds \<le> bt_start_ts ds \<longrightarrow> bt_get_progress_pct ds = 100"
    by (simp add: bt_get_progress_pct_def)
  have s1: "sb_end_ts sds \<le> sb_start_ts sds \<longrightarrow> sb_get_progress_pct sds = 100"
    by (simp add: sb_get_progress_pct_def)
  have b3: "bt_start_ts ds < bt_end_ts ds \<and> bt_start_ts ds \<le> bt_current_ts ds \<longrightarrow>
      bt_get_progress_pct ds =
        max 0 (min 100 (100 * real_of_int (bt_current_ts ds - bt_start_ts ds) / real_of_int (bt_end_ts ds - bt_start_ts ds)))"
    using bt_progress_formula[of ds] bt_progress_nonneg[of ds] by (simp add: max_def)
  have s3: "sb_start_ts sds < sb_end_ts sds \<and> sb_start_ts sds \<le> sb_current_ts sds \<longrightarrow>
      sb_get_progress_pct sds =
        max 0 (min 100 (100 * real_of_int (sb_current_ts sds - sb_start_ts sds) / real_of_int (sb_end_ts sds - sb_start_ts sds)))"
    using sb_progress_formula[of sds] sb_progress_nonneg[of sds] by (simp add: max_def)
  show ?thesis
    using b1 s1 b3 s3
      bt_progress_le[of ds] sb_progress_le[of sds] bt_progress_nonneg[of ds] sb_progress_nonneg[of sds]
      bt_progress_mono[of d ds] sb_progress_mono[of d sds]
    by blast
qed

text \<open>
  Claim C6 (progress) is right and the code misses the lower bound. The docstring of
  \<^verbatim>\<open>get_progress_pct\<close> promises a ``Progress percentage (0-100)'', and the code clamps
  with \<^verbatim>\<open>min(100.0, ...)\<close> only. On a source over 0..10000, after \<^verbatim>\<open>advance_time(-1000)\<close>,
  it returns -10 on both data sources, where the clamp to [0, 100] is 0.
\<close>

theorem progress_pct_below_zero:
  "bt_get_progress_pct (bt_advance_time (- 1000) (bt_init ''okx'' [''BTC-USDT''] 0 10000)) = - 10 \<and>
   max 0 (min 100 (100 * real_of_int
       (bt_current_ts (bt_advance_time (- 1000) (bt_init ''okx'' [''BTC-USDT''] 0 10000))
        - bt_start_ts (bt_advance_time (- 1000) (bt_init ''okx'' [''BTC-USDT''] 0 10000)))
     / real_of_int
       (bt_end_ts (bt_advance_time (- 1000) (bt_init ''okx'' [''BTC-USDT''] 0 10000))
        - bt_start_ts (bt_advance_time (- 1000) (bt_init ''okx'' [''BTC-USDT''] 0 10000))))) = (0::real) \<and>
   sb_get_progress_pct (sb_advance_time (- 1000) (sb_init [''QQQ''] 0 10000)) = - 10"
  by (simp add: bt_get_progress_pct_def sb_get_progress_pct_def bt_advance_time_def sb_advance_time_def
      bt_init_def sb_init_def)

section \<open>Preloading: the cache after a pass\<close>

lemma cache_get_set_same: "cache_get (cache_set cache smb iv cs) smb iv = cs"
  by (simp add: cache_get_def cache_set_def)

lemma cache_get_set_other:
  "smb' \<noteq> smb \<Longrightarrow> cache_get (cache_set cache smb iv cs) smb' iv' = cache_get cache smb' iv'"
  by (simp add: cache_get_def cache_set_def)

lemma cache_sorted_set:
  "cache_sorted cache \<Longrightarrow> sorted (map c_ts cs) \<Longrightarrow> cache_sorted (cache_set cache smb iv cs)"
  unfolding cache_sorted_def cache_set_def
  by (auto split: option.splits if_splits)

lemma cache_sorted_get: "cache_sorted cache \<Longrightarrow> sorted (map c_ts (cache_get cache smb iv))"
  by (auto simp: cache_sorted_def cache_get_def split: option.splits)

lemma cache_sorted_empty: "cache_sorted Map.empty"
  by (simp add: cache_sorted_def)

lemma sorted_adjacent:
  "sorted (map c_ts cs) \<Longrightarrow> Suc k < length cs \<Longrightarrow> c_ts (cs ! k) \<le> c_ts (cs ! Suc k)"
  using sorted_nth_mono[of "map c_ts cs" k "Suc k"] by simp

lemma sorted_sort_key_ts: "sorted (map c_ts (sort_key c_ts cs))"
  by (rule sorted_sort_key)

lemma gather_returned: "gather (map (\<lambda>x. Some (Inr (f x))) xs) = Some (Inr (map f xs))"
  by (induction xs) simp_all

lemma zip_upt_member:
  "i < length syms \<Longrightarrow> (syms ! i, res i) \<in> set (zip syms (map res [0..<length syms]))"
  by (force simp: in_set_zip)

subsection \<open>BacktestDataSource\<close>

lemma bt_store_cache:
  "bt_candle_cache (bt_store iv ds e) = cache_set (bt_candle_cache ds) (fst e) iv (sort_key c_ts (snd e))"
  by (simp add: bt_store_def)

lemma bt_stores_sorted:
  "cache_sorted (bt_candle_cache ds) \<Longrightarrow> cache_sorted (bt_candle_cache (foldl (bt_store iv) ds es))"
  by (induction es arbitrary: ds) (simp_all add: bt_store_cache cache_sorted_set sorted_sort_key_ts)

lemma bt_stores_lookup:
  "distinct (map fst es) \<Longrightarrow> (smb, cs) \<in> set es \<Longrightarrow>
   cache_get (bt_candle_cache (foldl (bt_store iv) ds es)) smb iv = sort_key c_ts cs"
proof (induction es rule: rev_induct)
  case Nil
  then show ?case by simp
next
  case (snoc e es)
  show ?case
  proof (cases "e = (smb, cs)")
    case True
    then show ?thesis by (simp add: bt_store_cache cache_get_set_same)
  next
    case False
    have mem: "(smb, cs) \<in> set es" using False snoc.prems by auto
    then have "smb \<in> fst ` set es" by force
    moreover have "fst e \<notin> fst ` set es" using snoc.prems(1) by simp
    ultimately have "smb \<noteq> fst e" by blast
    moreover have "cache_get (bt_candle_cache (foldl (bt_store iv) ds es)) smb iv = sort_key c_ts cs"
      using snoc.IH snoc.prems mem by simp
    ultimately show ?thesis by (simp add: bt_store_cache cache_get_set_other)
  qed
qed

lemma bt_preload_interval_sorted:
  "bt_preload_interval clients iv ds = Some (Inr ds') \<Longrightarrow> cache_sorted (bt_candle_cache ds) \<Longrightarrow>
   cache_sorted (bt_candle_cache ds')"
  by (auto simp: bt_preload_interval_def Let_def bt_stores_sorted split: option.splits sum.splits)

lemma bt_preload_intervals_sorted:
  "bt_preload_intervals world p ivs ds = Some (r, ds') \<Longrightarrow> cache_sorted (bt_candle_cache ds) \<Longrightarrow>
   cache_sorted (bt_candle_cache ds')"
proof (induction ivs arbitrary: p ds)
  case Nil
  then show ?case by simp
next
  case (Cons iv ivs)
  then show ?case
    by (auto split: option.splits sum.splits dest: bt_preload_interval_sorted)
qed

lemma bt_preload_data_sorted:
  "bt_preload_data world intervals ds = Some (r, ds') \<Longrightarrow> cache_sorted (bt_candle_cache ds) \<Longrightarrow>
   cache_sorted (bt_candle_cache ds')"
  by (auto simp: bt_preload_data_def Let_def simp del: bt_preload_intervals.simps
      split: if_splits option.splits prod.splits dest: bt_preload_intervals_sorted)

lemma bt_preload_data_flag:
  "bt_preload_data world intervals ds = Some (None, ds') \<Longrightarrow> bt_is_preloaded ds'"
  by (auto simp: bt_preload_data_def Let_def simp del: bt_preload_intervals.simps
      split: if_splits option.splits prod.splits)

lemma bt_preload_data_again:
  "bt_is_preloaded ds \<Longrightarrow> bt_preload_data world intervals ds = Some (None, ds)"
  by (simp add: bt_preload_data_def)

lemma bt_tasks_returned:
  assumes "\<forall>i<length syms. bt_fetch_symbol (clients i) ds iv (syms ! i) = Some (Inr (res i))"
  shows "gather (map (\<lambda>(j, smb). bt_fetch_symbol (clients j) ds iv smb) (enumerate 0 syms))
         = Some (Inr (map res [0..<length syms]))"
proof -
  have a: "map (\<lambda>(j, smb). bt_fetch_symbol (clients j) ds iv smb) (enumerate 0 syms)
        = map (\<lambda>x. Some (Inr (res (fst x)))) (enumerate 0 syms)"
    using assms by (intro map_cong) (auto simp: in_set_enumerate_eq)
  have b: "map (\<lambda>x. res (fst x)) (enumerate 0 syms) = map res [0..<length syms]"
    by (rule nth_equalityI) (simp_all add: nth_enumerate_eq)
  show ?thesis by (simp only: a gather_returned b)
qed

lemma bt_partial_failure:
  assumes npre: "\<not> bt_is_preloaded ds" and dist: "distinct (bt_symbols ds)"
    and clients: "\<forall>i<length (bt_symbols ds). world 0 i = Inr (fetch i)"
    and fail: "bt_try_body (fetch j) ds (bt_symbols ds ! j) iv = Some (Inl exc)"
    and ok: "\<forall>i<length (bt_symbols ds). i \<noteq> j \<longrightarrow>
               bt_try_body (fetch i) ds (bt_symbols ds ! i) iv = Some (Inr (loaded i))"
  shows "\<exists>ds'. bt_preload_data world (Some [iv]) ds = Some (None, ds') \<and> bt_is_preloaded ds' \<and>
           (\<forall>i<length (bt_symbols ds).
              cache_get (bt_candle_cache ds') (bt_symbols ds ! i) iv =
                (if i = j then [] else sort_key c_ts (loaded i)))"
proof -
  let ?syms = "bt_symbols ds"
  define res where "res i = (if i = j then [] else loaded i)" for i
  have each: "\<forall>i<length ?syms. bt_fetch_symbol (world 0 i) ds iv (?syms ! i) = Some (Inr (res i))"
    using clients fail ok by (auto simp: bt_fetch_symbol_def res_def)
  let ?ds' = "foldl (bt_store iv) ds (zip ?syms (map res [0..<length ?syms]))"
  have pass: "bt_preload_interval (world 0) iv ds = Some (Inr ?ds')"
    by (simp add: bt_preload_interval_def bt_tasks_returned[OF each])
  have run: "bt_preload_data world (Some [iv]) ds = Some (None, ?ds'\<lparr>bt_is_preloaded := True\<rparr>)"
    using npre by (simp add: bt_preload_data_def pass)
  have look: "cache_get (bt_candle_cache ?ds') (?syms ! i) iv = sort_key c_ts (res i)"
    if "i < length ?syms" for i
    using that dist by (intro bt_stores_lookup) (simp_all add: zip_upt_member)
  show ?thesis
    using run look by (auto simp: res_def)
qed

subsection \<open>StockBacktestDataSource\<close>

lemma sb_store_cache:
  "sb_candle_cache (sb_store iv ds e) = cache_set (sb_candle_cache ds) (fst e) iv (sort_key c_ts (snd e))"
  by (simp add: sb_store_def)

lemma sb_stores_sorted:
  "cache_sorted (sb_candle_cache ds) \<Longrightarrow> cache_sorted (sb_candle_cache (foldl (sb_store iv) ds es))"
  by (induction es arbitrary: ds) (simp_all add: sb_store_cache cache_sorted_set sorted_sort_key_ts)

lemma sb_stores_lookup:
  "distinct (map fst es) \<Longrightarrow> (smb, cs) \<in> set es \<Longrightarrow>
   cache_get (sb_candle_cache (foldl (sb_store iv) ds es)) smb iv = sort_key c_ts cs"
proof (induction es rule: rev_induct)
  case Nil
  then show ?case by simp
next
  case (snoc e es)
  show ?case
  proof (cases "e = (smb, cs)")
    case True
    then show ?thesis by (simp add: sb_store_cache cache_get_set_same)
  next
    case False
    have mem: "(smb, cs) \<in> set es" using False snoc.prems by auto
    then have "smb \<in> fst ` set es" by force
    moreover have "fst e \<notin> fst ` set es" using snoc.prems(1) by simp
    ultimately have "smb \<noteq> fst e" by blast
    moreover have "cache_get (sb_candle_cache (foldl (sb_store iv) ds es)) smb iv = sort_key c_ts cs"
      using snoc.IH snoc.prems mem by simp
    ultimately show ?thesis by (simp add: sb_store_cache cache_get_set_other)
  qed
qed

lemma sb_preload_interval_sorted:
  "sb_preload_interval utc_date histories iv ds = Inr ds' \<Longrightarrow> cache_sorted (sb_candle_cache ds) \<Longrightarrow>
   cache_sorted (sb_candle_cache ds')"
  by (auto simp: sb_preload_interval_def Let_def sb_stores_sorted split: sum.splits)

lemma sb_preload_intervals_sorted:
  "sb_preload_intervals utc_date world p ivs ds = (r, ds') \<Longrightarrow> cache_sorted (sb_candle_cache ds) \<Longrightarrow>
   cache_sorted (sb_candle_cache ds')"
proof (induction ivs arbitrary: p ds)
  case Nil
  then show ?case by simp
next
  case (Cons iv ivs)
  then show ?case
    by (auto split: sum.splits dest: sb_preload_interval_sorted)
qed

lemma sb_preload_data_sorted:
  "sb_preload_data utc_date world intervals ds = (r, ds') \<Longrightarrow> cache_sorted (sb_candle_cache ds) \<Longrightarrow>
   cache_sorted (sb_candle_cache ds')"
  by (auto simp: sb_preload_data_def Let_def simp del: sb_preload_intervals.simps
      split: if_splits prod.splits option.splits dest: sb_preload_intervals_sorted)

lemma sb_preload_data_flag:
  "sb_preload_data utc_date world intervals ds = (None, ds') \<Longrightarrow> sb_is_preloaded ds'"
  by (auto simp: sb_preload_data_def Let_def simp del: sb_preload_intervals.simps
      split: if_splits prod.splits option.splits)

lemma sb_preload_data_again:
  "sb_is_preloaded ds \<Longrightarrow> sb_preload_data utc_date world intervals ds = (None, ds)"
  by (simp add: sb_preload_data_def)

lemma sb_results:
  assumes "\<forall>i<length syms. sb_fetch_symbol (histories i) s e y ds iv (syms ! i) = res i"
  shows "map (\<lambda>(j, smb). sb_fetch_symbol (histories j) s e y ds iv smb) (enumerate 0 syms)
         = map res [0..<length syms]"
  using assms by (intro nth_equalityI) (simp_all add: nth_enumerate_eq)

lemma sb_partial_failure:
  assumes npre: "\<not> sb_is_preloaded ds" and dist: "distinct (sb_symbols ds)"
    and dates: "utc_date (sb_start_ts ds) = Inr start_str" "utc_date (sb_end_ts ds) = Inr end_str"
    and yfi: "yf_interval = (case interval_map iv of None \<Rightarrow> ''1d'' | Some v \<Rightarrow> v)"
    and fail: "sb_try_body (world 0 j) start_str end_str yf_interval ds iv (sb_symbols ds ! j) = Inl exc"
    and ok: "\<forall>i<length (sb_symbols ds). i \<noteq> j \<longrightarrow>
               sb_try_body (world 0 i) start_str end_str yf_interval ds iv (sb_symbols ds ! i) = Inr (loaded i)"
  shows "\<exists>ds'. sb_preload_data utc_date world (Some [iv]) ds = (None, ds') \<and> sb_is_preloaded ds' \<and>
           (\<forall>i<length (sb_symbols ds).
              cache_get (sb_candle_cache ds') (sb_symbols ds ! i) iv =
                (if i = j then [] else sort_key c_ts (loaded i)))"
proof -
  let ?syms = "sb_symbols ds"
  define res where "res i = (if i = j then [] else loaded i)" for i
  have each: "\<forall>i<length ?syms. sb_fetch_symbol (world 0 i) start_str end_str yf_interval ds iv (?syms ! i) = res i"
    using fail ok by (auto simp: sb_fetch_symbol_def res_def)
  let ?ds' = "foldl (sb_store iv) ds (zip ?syms (map res [0..<length ?syms]))"
  have pass: "sb_preload_interval utc_date (world 0) iv ds = Inr ?ds'"
    using dates sb_results[OF each] unfolding yfi by (simp add: sb_preload_interval_def)
  have run: "sb_preload_data utc_date world (Some [iv]) ds = (None, ?ds'\<lparr>sb_is_preloaded := True\<rparr>)"
    using npre by (simp add: sb_preload_data_def pass)
  have look: "cache_get (sb_candle_cache ?ds') (?syms ! i) iv = sort_key c_ts (res i)"
    if "i < length ?syms" for i
    using that dist by (intro sb_stores_lookup) (simp_all add: zip_upt_member)
  show ?thesis
    using run look by (auto simp: res_def)
qed

subsection \<open>Pagination against the provider's answers\<close>

lemma bt_take_rows_le:
  "bt_take_rows ds smb iv = (\<lambda>raw. map (bt_row_candle ds smb iv) (takeWhile (\<lambda>row. r_ts row \<le> bt_end_ts ds) raw))"
  by (rule ext) (simp add: bt_take_rows_def not_less)

lemma bt_paginate_pages:
  "bt_pages_from fetch ds smb iv k raw pages \<Longrightarrow>
   bt_paginate fetch ds smb iv k raw candles =
     Some (Inr (candles @ concat (map (bt_take_rows ds smb iv) (raw # pages))))"
proof (induction pages arbitrary: k raw candles)
  case Nil
  then show ?case
    by (subst bt_paginate.simps) (auto simp: bt_take_rows_def)
next
  case (Cons page pages)
  then have step: "raw \<noteq> []" "\<not> r_ts (last raw) \<ge> bt_end_ts ds"
    "fetch k (bt_normalize_symbol smb) iv (r_ts (last raw) + 1) 1000 = Inr page"
    and rest: "bt_pages_from fetch ds smb iv (Suc k) page pages"
    by simp_all
  have "bt_paginate fetch ds smb iv k raw candles =
        bt_paginate fetch ds smb iv (Suc k) page (candles @ bt_take_rows ds smb iv raw)"
    using step by (subst bt_paginate.simps) simp
  also have "\<dots> = Some (Inr ((candles @ bt_take_rows ds smb iv raw) @
                        concat (map (bt_take_rows ds smb iv) (page # pages))))"
    by (rule Cons.IH[OF rest])
  finally show ?case by simp
qed

lemma bt_paginate_breaks:
  "bt_breaks_from fetch ds smb iv k raw pages exc \<Longrightarrow>
   bt_paginate fetch ds smb iv k raw candles = Some (Inl exc)"
proof (induction pages arbitrary: k raw candles)
  case Nil
  then show ?case
    by (subst bt_paginate.simps) simp
next
  case (Cons page pages)
  then have step: "raw \<noteq> []" "\<not> r_ts (last raw) \<ge> bt_end_ts ds"
    "fetch k (bt_normalize_symbol smb) iv (r_ts (last raw) + 1) 1000 = Inr page"
    and rest: "bt_breaks_from fetch ds smb iv (Suc k) page pages exc"
    by simp_all
  have "bt_paginate fetch ds smb iv k raw candles =
        bt_paginate fetch ds smb iv (Suc k) page (candles @ bt_take_rows ds smb iv raw)"
    using step by (subst bt_paginate.simps) simp
  also have "\<dots> = Some (Inl exc)"
    by (rule Cons.IH[OF rest])
  finally show ?case .
qed

lemma bt_try_body_serves:
  assumes "bt_serves fetch ds smb iv pages"
  shows "bt_try_body fetch ds smb iv =
     Some (Inr (concat (map (\<lambda>page. map (bt_row_candle ds smb iv)
                                       (takeWhile (\<lambda>row. r_ts row \<le> bt_end_ts ds) page)) pages)))"
proof (cases pages)
  case Nil
  then show ?thesis using assms by (simp add: bt_serves_def)
next
  case (Cons page rest)
  then have first: "fetch 0 (bt_normalize_symbol smb) iv (bt_start_ts ds) 1000 = Inr page"
    and more: "bt_pages_from fetch ds smb iv 1 page rest"
    using assms by (simp_all add: bt_serves_def)
  have "bt_try_body fetch ds smb iv = bt_paginate fetch ds smb iv 1 page []"
    by (simp add: bt_try_body_def first)
  also have "\<dots> = Some (Inr ([] @ concat (map (bt_take_rows ds smb iv) (page # rest))))"
    by (rule bt_paginate_pages[OF more])
  finally show ?thesis
    using Cons by (simp add: bt_take_rows_le)
qed

lemma bt_try_body_breaks:
  assumes "bt_breaks fetch ds smb iv pages exc"
  shows "bt_try_body fetch ds smb iv = Some (Inl exc)"
proof (cases pages)
  case Nil
  then show ?thesis using assms by (simp add: bt_breaks_def bt_try_body_def)
next
  case (Cons page rest)
  then have first: "fetch 0 (bt_normalize_symbol smb) iv (bt_start_ts ds) 1000 = Inr page"
    and more: "bt_breaks_from fetch ds smb iv 1 page rest exc"
    using assms by (simp_all add: bt_breaks_def)
  have "bt_try_body fetch ds smb iv = bt_paginate fetch ds smb iv 1 page []"
    by (simp add: bt_try_body_def first)
  also have "\<dots> = Some (Inl exc)"
    by (rule bt_paginate_breaks[OF more])
  finally show ?thesis .
qed

lemma sb_try_body_answers:
  "history (sb_normalize_symbol smb) start_str end_str yf_interval = Inr data \<Longrightarrow>
   sb_try_body history start_str end_str yf_interval ds iv smb =
     Inr (map (sb_row_candle smb iv)
            (takeWhile (\<lambda>row. h_ts row \<le> sb_end_ts ds) (case data of None \<Rightarrow> [] | Some rows \<Rightarrow> rows)))"
  by (cases data) (simp_all add: sb_try_body_def not_less)

subsection \<open>The example worlds\<close>

lemma ex_ds_fields:
  "bt_symbols ex_ds = [''BTC-USDT'', ''ETH-USDT''] \<and> \<not> bt_is_preloaded ex_ds \<and> bt_candle_cache ex_ds = Map.empty"
  by (simp add: ex_ds_def bt_init_def)

lemma ex_sds_fields:
  "sb_symbols ex_sds = [''QQQ'', ''SPY''] \<and> \<not> sb_is_preloaded ex_sds \<and> sb_candle_cache ex_sds = Map.empty"
  by (simp add: ex_sds_def sb_init_def)

lemma ex_try_fail: "bt_try_body ex_fetch_fail ex_ds smb iv = Some (Inl (Exception ''network down''))"
  by (simp add: bt_try_body_def ex_fetch_fail_def bt_paginate.simps ex_row_def ex_ds_def bt_init_def)

lemma ex_try_ok:
  "bt_try_body ex_fetch_ok ex_ds smb iv = Some (Inr (map (ex_candle ''okx'' iv smb) [3000, 1000, 2000]))"
  by (simp add: bt_try_body_def ex_fetch_ok_def bt_paginate.simps bt_take_rows_def bt_row_candle_def
      ex_row_def ex_ds_def bt_init_def ex_candle_def)

lemma ex_stry_fail:
  "sb_try_body ex_history_fail s e y ex_sds iv smb = Inl (Exception ''network down'')"
  by (simp add: sb_try_body_def ex_history_fail_def)

lemma ex_stry_ok:
  "sb_try_body ex_history_ok s e y ex_sds iv smb = Inr (map (ex_candle ''yfinance'' iv smb) [3000, 1000, 2000])"
  by (simp add: sb_try_body_def ex_history_ok_def sb_row_candle_def ex_hrow_def ex_sds_def sb_init_def
      ex_candle_def)

lemma ex_sorted:
  "sort_key c_ts (map (ex_candle exch iv smb) [3000, 1000, 2000]) = map (ex_candle exch iv smb) [1000, 2000, 3000]"
  by (simp add: ex_candle_def)

lemma ex_preload:
  "\<exists>ds'. bt_preload_data ex_world (Some [''1m'']) ex_ds = Some (None, ds') \<and>
     cache_get (bt_candle_cache ds') ''BTC-USDT'' ''1m'' = [] \<and>
     cache_get (bt_candle_cache ds') ''ETH-USDT'' ''1m'' = map (ex_candle ''okx'' ''1m'' ''ETH-USDT'') [1000, 2000, 3000]"
  by (simp add: bt_preload_data_def bt_preload_interval_def bt_fetch_symbol_def ex_world_def
      ex_try_fail ex_try_ok enumerate_eq_zip bt_store_def cache_get_def cache_set_def ex_candle_def
      ex_ds_fields)

lemma ex_spreload:
  "\<exists>ds'. sb_preload_data ex_utc_date ex_sworld (Some [''1d'']) ex_sds = (None, ds') \<and>
     cache_get (sb_candle_cache ds') ''QQQ'' ''1d'' = [] \<and>
     cache_get (sb_candle_cache ds') ''SPY'' ''1d'' = map (ex_candle ''yfinance'' ''1d'' ''SPY'') [1000, 2000, 3000]"
  by (simp add: sb_preload_data_def sb_preload_interval_def sb_fetch_symbol_def ex_sworld_def ex_utc_date_def
      ex_stry_fail ex_stry_ok enumerate_eq_zip sb_store_def cache_get_def cache_set_def ex_candle_def
      ex_sds_fields)

section \<open>Preloading: the claims\<close>

text \<open>
  Claim C4 (sortedness). A new data source has a sorted (empty) cache, and
  \<^verbatim>\<open>preload_data\<close> keeps the cache sorted: when it completes, by returning or by raising,
  every series that \<^verbatim>\<open>_candle_cache.get(symbol, {}).get(interval, [])\<close> reads has each
  candle's timestamp at most its successor's. This holds on both data sources, for every
  behaviour of the provider.
\<close>

theorem preload_series_sorted:
  "cache_sorted (bt_candle_cache (bt_init exch syms start stop)) \<and>
   cache_sorted (sb_candle_cache (sb_init syms start stop)) \<and>
   (cache_sorted (bt_candle_cache ds) \<and> bt_preload_data world intervals ds = Some (r, ds') \<and>
    cs = cache_get (bt_candle_cache ds') smb iv \<and> Suc k < length cs
      \<longrightarrow> c_ts (cs ! k) \<le> c_ts (cs ! Suc k)) \<and>
   (cache_sorted (sb_candle_cache sds) \<and> sb_preload_data utc_date sworld intervals sds = (sr, sds') \<and>
    scs = cache_get (sb_candle_cache sds') smb iv \<and> Suc k < length scs
      \<longrightarrow> c_ts (scs ! k) \<le> c_ts (scs ! Suc k))"
proof -
  have "cache_sorted (bt_candle_cache (bt_init exch syms start stop))"
    by (simp add: bt_init_def cache_sorted_empty)
  moreover have "cache_sorted (sb_candle_cache (sb_init syms start stop))"
    by (simp add: sb_init_def cache_sorted_empty)
  moreover have "c_ts (cs ! k) \<le> c_ts (cs ! Suc k)"
    if "cache_sorted (bt_candle_cache ds)" "bt_preload_data world intervals ds = Some (r, ds')"
      "cs = cache_get (bt_candle_cache ds') smb iv" "Suc k < length cs"
  proof -
    have "cache_sorted (bt_candle_cache ds')"
      using that(1,2) by (rule bt_preload_data_sorted[rotated])
    then have "sorted (map c_ts cs)"
      using that(3) by (simp add: cache_sorted_get)
    then show ?thesis using that(4) by (rule sorted_adjacent)
  qed
  moreover have "c_ts (scs ! k) \<le> c_ts (scs ! Suc k)"
    if "cache_sorted (sb_candle_cache sds)" "sb_preload_data utc_date sworld intervals sds = (sr, sds')"
      "scs = cache_get (sb_candle_cache sds') smb iv" "Suc k < length scs"
  proof -
    have "cache_sorted (sb_candle_cache sds')"
      using that(1,2) by (rule sb_preload_data_sorted[rotated])
    then have "sorted (map c_ts scs)"
      using that(3) by (simp add: cache_sorted_get)
    then show ?thesis using that(4) by (rule sorted_adjacent)
  qed
  ultimately show ?thesis by blast
qed

theorem preload_series_sorted_witness:
  "cache_sorted (bt_candle_cache ex_ds) \<and> cache_sorted (sb_candle_cache ex_sds) \<and>
   (\<exists>ds'. bt_preload_data ex_world (Some [''1m'']) ex_ds = Some (None, ds') \<and>
      cache_get (bt_candle_cache ds') ''ETH-USDT'' ''1m'' = map (ex_candle ''okx'' ''1m'' ''ETH-USDT'') [1000, 2000, 3000] \<and>
      c_ts (cache_get (bt_candle_cache ds') ''ETH-USDT'' ''1m'' ! 0)
        \<le> c_ts (cache_get (bt_candle_cache ds') ''ETH-USDT'' ''1m'' ! Suc 0)) \<and>
   (\<exists>ds'. sb_preload_data ex_utc_date ex_sworld (Some [''1d'']) ex_sds = (None, ds') \<and>
      cache_get (sb_candle_cache ds') ''SPY'' ''1d'' = map (ex_candle ''yfinance'' ''1d'' ''SPY'') [1000, 2000, 3000] \<and>
      c_ts (cache_get (sb_candle_cache ds') ''SPY'' ''1d'' ! 0)
        \<le> c_ts (cache_get (sb_candle_cache ds') ''SPY'' ''1d'' ! Suc 0))"
proof -
  have c0: "cache_sorted (bt_candle_cache ex_ds)" and s0: "cache_sorted (sb_candle_cache ex_sds)"
    by (simp_all add: ex_ds_fields ex_sds_fields cache_sorted_empty)
  obtain ds' where run: "bt_preload_data ex_world (Some [''1m'']) ex_ds = Some (None, ds')"
    and got: "cache_get (bt_candle_cache ds') ''ETH-USDT'' ''1m'' = map (ex_candle ''okx'' ''1m'' ''ETH-USDT'') [1000, 2000, 3000]"
    using ex_preload by blast
  obtain sds' where srun: "sb_preload_data ex_utc_date ex_sworld (Some [''1d'']) ex_sds = (None, sds')"
    and sgot: "cache_get (sb_candle_cache sds') ''SPY'' ''1d'' = map (ex_candle ''yfinance'' ''1d'' ''SPY'') [1000, 2000, 3000]"
    using ex_spreload by blast
  have len: "Suc 0 < length (cache_get (bt_candle_cache ds') ''ETH-USDT'' ''1m'')"
    and slen: "Suc 0 < length (cache_get (sb_candle_cache sds') ''SPY'' ''1d'')"
    by (simp_all add: got sgot)
  note inst = preload_series_sorted[of "''okx''" "[''BTC-USDT'', ''ETH-USDT'']" 0 10000 ex_ds ex_world
      "Some [''1m'']" None ds' "cache_get (bt_candle_cache ds') ''ETH-USDT'' ''1m''" "''ETH-USDT''" "''1m''" 0
      ex_sds ex_utc_date ex_sworld None sds' "cache_get (sb_candle_cache sds') ''ETH-USDT'' ''1m''"]
  note sinst = preload_series_sorted[of "''okx''" "[''QQQ'', ''SPY'']" 0 10000 ex_ds ex_world
      "Some [''1d'']" None ds' "cache_get (bt_candle_cache ds') ''SPY'' ''1d''" "''SPY''" "''1d''" 0
      ex_sds ex_utc_date ex_sworld None sds' "cache_get (sb_candle_cache sds') ''SPY'' ''1d''"]
  have adj: "c_ts (cache_get (bt_candle_cache ds') ''ETH-USDT'' ''1m'' ! 0)
        \<le> c_ts (cache_get (bt_candle_cache ds') ''ETH-USDT'' ''1m'' ! Suc 0)"
    using inst c0 run len by blast
  have sadj: "c_ts (cache_get (sb_candle_cache sds') ''SPY'' ''1d'' ! 0)
        \<le> c_ts (cache_get (sb_candle_cache sds') ''SPY'' ''1d'' ! Suc 0)"
    using sinst s0 srun slen by blast
  show ?thesis using c0 s0 run got adj srun sgot sadj by blast
qed

text \<open>
  Claim C8 (partial failure). One pass over distinct symbols, on a data source not yet
  preloaded, whose tasks all reach their fetch (crypto: every client is created; stock:
  the two date conversions succeed). Let the provider raise for symbol \<open>j\<close> (crypto: on
  the first request or on a later one, after pages that were read; stock: on the
  \<^verbatim>\<open>history\<close> call) and answer for every other symbol \<open>i\<close> (crypto: with the pages
  \<open>pages i\<close>, the last of which ends the pagination; stock: with the frame \<open>data i\<close>).
  Then \<^verbatim>\<open>preload_data\<close> returns without raising, the series of symbol \<open>j\<close> is empty, and
  the series of every other symbol holds exactly the rows the provider gave, up to the
  first row beyond \<^verbatim>\<open>end_ts\<close> (crypto: of each page), as candles in ascending order of
  timestamp.
\<close>

theorem preload_partial_failure:
  "(\<not> bt_is_preloaded ds \<and> distinct (bt_symbols ds) \<and> j < length (bt_symbols ds) \<and>
    (\<forall>i<length (bt_symbols ds). world 0 i = Inr (fetch i)) \<and>
    bt_breaks (fetch j) ds (bt_symbols ds ! j) iv read_before exc \<and>
    (\<forall>i<length (bt_symbols ds). i \<noteq> j \<longrightarrow> bt_serves (fetch i) ds (bt_symbols ds ! i) iv (pages i))
    \<longrightarrow> (\<exists>ds'. bt_preload_data world (Some [iv]) ds = Some (None, ds') \<and>
           cache_get (bt_candle_cache ds') (bt_symbols ds ! j) iv = [] \<and>
           (\<forall>i<length (bt_symbols ds). i \<noteq> j \<longrightarrow>
              cache_get (bt_candle_cache ds') (bt_symbols ds ! i) iv =
                sort_key c_ts (concat (map (\<lambda>page. map (bt_row_candle ds (bt_symbols ds ! i) iv)
                                              (takeWhile (\<lambda>row. r_ts row \<le> bt_end_ts ds) page)) (pages i))) \<and>
              mset (cache_get (bt_candle_cache ds') (bt_symbols ds ! i) iv) =
                mset (concat (map (\<lambda>page. map (bt_row_candle ds (bt_symbols ds ! i) iv)
                                              (takeWhile (\<lambda>row. r_ts row \<le> bt_end_ts ds) page)) (pages i))) \<and>
              sorted (map c_ts (cache_get (bt_candle_cache ds') (bt_symbols ds ! i) iv))))) \<and>
   (\<not> sb_is_preloaded sds \<and> distinct (sb_symbols sds) \<and> j < length (sb_symbols sds) \<and>
    utc_date (sb_start_ts sds) = Inr start_str \<and> utc_date (sb_end_ts sds) = Inr end_str \<and>
    yf_interval = (case interval_map iv of None \<Rightarrow> ''1d'' | Some v \<Rightarrow> v) \<and>
    sworld 0 j (sb_normalize_symbol (sb_symbols sds ! j)) start_str end_str yf_interval = Inl exc \<and>
    (\<forall>i<length (sb_symbols sds). i \<noteq> j \<longrightarrow>
       sworld 0 i (sb_normalize_symbol (sb_symbols sds ! i)) start_str end_str yf_interval = Inr (data i))
    \<longrightarrow> (\<exists>sds'. sb_preload_data utc_date sworld (Some [iv]) sds = (None, sds') \<and>
           cache_get (sb_candle_cache sds') (sb_symbols sds ! j) iv = [] \<and>
           (\<forall>i<length (sb_symbols sds). i \<noteq> j \<longrightarrow>
              cache_get (sb_candle_cache sds') (sb_symbols sds ! i) iv =
                sort_key c_ts (map (sb_row_candle (sb_symbols sds ! i) iv)
                  (takeWhile (\<lambda>row. h_ts row \<le> sb_end_ts sds) (case data i of None \<Rightarrow> [] | Some rows \<Rightarrow> rows))) \<and>
              mset (cache_get (sb_candle_cache sds') (sb_symbols sds ! i) iv) =
                mset (map (sb_row_candle (sb_symbols sds ! i) iv)
                  (takeWhile (\<lambda>row. h_ts row \<le> sb_end_ts sds) (case data i of None \<Rightarrow> [] | Some rows \<Rightarrow> rows))) \<and>
              sorted (map c_ts (cache_get (sb_candle_cache sds') (sb_symbols sds ! i) iv)))))"
proof (intro conjI impI)
  let ?loaded = "\<lambda>i. concat (map (\<lambda>page. map (bt_row_candle ds (bt_symbols ds ! i) iv)
                                              (takeWhile (\<lambda>row. r_ts row \<le> bt_end_ts ds) page)) (pages i))"
  assume h: "\<not> bt_is_preloaded ds \<and> distinct (bt_symbols ds) \<and> j < length (bt_symbols ds) \<and>
    (\<forall>i<length (bt_symbols ds). world 0 i = Inr (fetch i)) \<and>
    bt_breaks (fetch j) ds (bt_symbols ds ! j) iv read_before exc \<and>
    (\<forall>i<length (bt_symbols ds). i \<noteq> j \<longrightarrow> bt_serves (fetch i) ds (bt_symbols ds ! i) iv (pages i))"
  have fail: "bt_try_body (fetch j) ds (bt_symbols ds ! j) iv = Some (Inl exc)"
    using h bt_try_body_breaks[of "fetch j" ds "bt_symbols ds ! j" iv read_before exc] by blast
  have ok: "\<forall>i<length (bt_symbols ds). i \<noteq> j \<longrightarrow>
      bt_try_body (fetch i) ds (bt_symbols ds ! i) iv = Some (Inr (?loaded i))"
    using h bt_try_body_serves[of "fetch _" ds "bt_symbols ds ! _" iv "pages _"] by blast
  obtain ds' where run: "bt_preload_data world (Some [iv]) ds = Some (None, ds')"
    and look: "\<forall>i<length (bt_symbols ds).
              cache_get (bt_candle_cache ds') (bt_symbols ds ! i) iv =
                (if i = j then [] else sort_key c_ts (?loaded i))"
    using bt_partial_failure[of ds world fetch j iv exc ?loaded] h fail ok by blast
  have "cache_get (bt_candle_cache ds') (bt_symbols ds ! j) iv = []"
    using look h by simp
  moreover have "\<forall>i<length (bt_symbols ds). i \<noteq> j \<longrightarrow>
              cache_get (bt_candle_cache ds') (bt_symbols ds ! i) iv = sort_key c_ts (?loaded i) \<and>
              mset (cache_get (bt_candle_cache ds') (bt_symbols ds ! i) iv) = mset (?loaded i) \<and>
              sorted (map c_ts (cache_get (bt_candle_cache ds') (bt_symbols ds ! i) iv))"
    using look by (simp add: sorted_sort_key_ts)
  ultimately show "\<exists>ds'. bt_preload_data world (Some [iv]) ds = Some (None, ds') \<and>
           cache_get (bt_candle_cache ds') (bt_symbols ds ! j) iv = [] \<and>
           (\<forall>i<length (bt_symbols ds). i \<noteq> j \<longrightarrow>
              cache_get (bt_candle_cache ds') (bt_symbols ds ! i) iv = sort_key c_ts (?loaded i) \<and>
              mset (cache_get (bt_candle_cache ds') (bt_symbols ds ! i) iv) = mset (?loaded i) \<and>
              sorted (map c_ts (cache_get (bt_candle_cache ds') (bt_symbols ds ! i) iv)))"
    using run by blast
next
  let ?loaded = "\<lambda>i. map (sb_row_candle (sb_symbols sds ! i) iv)
                  (takeWhile (\<lambda>row. h_ts row \<le> sb_end_ts sds) (case data i of None \<Rightarrow> [] | Some rows \<Rightarrow> rows))"
  assume h: "\<not> sb_is_preloaded sds \<and> distinct (sb_symbols sds) \<and> j < length (sb_symbols sds) \<and>
    utc_date (sb_start_ts sds) = Inr start_str \<and> utc_date (sb_end_ts sds) = Inr end_str \<and>
    yf_interval = (case interval_map iv of None \<Rightarrow> ''1d'' | Some v \<Rightarrow> v) \<and>
    sworld 0 j (sb_normalize_symbol (sb_symbols sds ! j)) start_str end_str yf_interval = Inl exc \<and>
    (\<forall>i<length (sb_symbols sds). i \<noteq> j \<longrightarrow>
       sworld 0 i (sb_normalize_symbol (sb_symbols sds ! i)) start_str end_str yf_interval = Inr (data i))"
  have raised: "sworld 0 j (sb_normalize_symbol (sb_symbols sds ! j)) start_str end_str yf_interval = Inl exc"
    using h by blast
  have fail: "sb_try_body (sworld 0 j) start_str end_str yf_interval sds iv (sb_symbols sds ! j) = Inl exc"
    by (simp add: sb_try_body_def raised)
  have ok: "\<forall>i<length (sb_symbols sds). i \<noteq> j \<longrightarrow>
      sb_try_body (sworld 0 i) start_str end_str yf_interval sds iv (sb_symbols sds ! i) = Inr (?loaded i)"
    using h sb_try_body_answers[of "sworld 0 _" "sb_symbols sds ! _" start_str end_str yf_interval "data _" sds iv]
    by blast
  obtain sds' where run: "sb_preload_data utc_date sworld (Some [iv]) sds = (None, sds')"
    and look: "\<forall>i<length (sb_symbols sds).
              cache_get (sb_candle_cache sds') (sb_symbols sds ! i) iv =
                (if i = j then [] else sort_key c_ts (?loaded i))"
    using sb_partial_failure[of sds utc_date start_str end_str yf_interval iv sworld j exc ?loaded] h fail ok
    by blast
  have "cache_get (sb_candle_cache sds') (sb_symbols sds ! j) iv = []"
    using look h by simp
  moreover have "\<forall>i<length (sb_symbols sds). i \<noteq> j \<longrightarrow>
              cache_get (sb_candle_cache sds') (sb_symbols sds ! i) iv = sort_key c_ts (?loaded i) \<and>
              mset (cache_get (sb_candle_cache sds') (sb_symbols sds ! i) iv) = mset (?loaded i) \<and>
              sorted (map c_ts (cache_get (sb_candle_cache sds') (sb_symbols sds ! i) iv))"
    using look by (simp add: sorted_sort_key_ts)
  ultimately show "\<exists>sds'. sb_preload_data utc_date sworld (Some [iv]) sds = (None, sds') \<and>
           cache_get (sb_candle_cache sds') (sb_symbols sds ! j) iv = [] \<and>
           (\<forall>i<length (sb_symbols sds). i \<noteq> j \<longrightarrow>
              cache_get (sb_candle_cache sds') (sb_symbols sds ! i) iv = sort_key c_ts (?loaded i) \<and>
              mset (cache_get (sb_candle_cache sds') (sb_symbols sds ! i) iv) = mset (?loaded i) \<and>
              sorted (map c_ts (cache_get (sb_candle_cache sds') (sb_symbols sds ! i) iv)))"
    using run by blast
qed

theorem preload_partial_failure_witness:
  "\<not> bt_is_preloaded ex_ds \<and> distinct (bt_symbols ex_ds) \<and>
   bt_breaks ex_fetch_fail ex_ds (bt_symbols ex_ds ! 0) ''1m'' [[ex_row 500]] (Exception ''network down'') \<and>
   bt_serves ex_fetch_ok ex_ds (bt_symbols ex_ds ! 1) ''1m''
     [[ex_row 3000, ex_row 1000], [ex_row 2000, ex_row 12000]] \<and>
   (\<exists>ds'. bt_preload_data ex_world (Some [''1m'']) ex_ds = Some (None, ds') \<and>
      cache_get (bt_candle_cache ds') ''BTC-USDT'' ''1m'' = [] \<and>
      cache_get (bt_candle_cache ds') ''ETH-USDT'' ''1m'' = map (ex_candle ''okx'' ''1m'' ''ETH-USDT'') [1000, 2000, 3000]) \<and>
   \<not> sb_is_preloaded ex_sds \<and> distinct (sb_symbols ex_sds) \<and>
   ex_sworld 0 0 (sb_normalize_symbol (sb_symbols ex_sds ! 0)) ''1970-01-01'' ''1970-01-01'' ''1d''
     = Inl (Exception ''network down'') \<and>
   ex_sworld 0 1 (sb_normalize_symbol (sb_symbols ex_sds ! 1)) ''1970-01-01'' ''1970-01-01'' ''1d''
     = Inr (Some [ex_hrow 3000, ex_hrow 1000, ex_hrow 2000, ex_hrow 12000]) \<and>
   (\<exists>sds'. sb_preload_data ex_utc_date ex_sworld (Some [''1d'']) ex_sds = (None, sds') \<and>
      cache_get (sb_candle_cache sds') ''QQQ'' ''1d'' = [] \<and>
      cache_get (sb_candle_cache sds') ''SPY'' ''1d'' = map (ex_candle ''yfinance'' ''1d'' ''SPY'') [1000, 2000, 3000])"
proof -
  define F where "F i = (if i = 0 then ex_fetch_fail else ex_fetch_ok)" for i :: nat
  define PG where "PG i = [[ex_row 3000, ex_row 1000], [ex_row 2000, ex_row 12000]]" for i :: nat
  define D where "D i = Some [ex_hrow 3000, ex_hrow 1000, ex_hrow 2000, ex_hrow 12000]" for i :: nat
  have brk: "bt_breaks ex_fetch_fail ex_ds smb ''1m'' [[ex_row 500]] (Exception ''network down'')" for smb
    by (simp add: bt_breaks_def ex_fetch_fail_def ex_row_def ex_ds_def bt_init_def)
  have srv: "bt_serves ex_fetch_ok ex_ds smb ''1m'' [[ex_row 3000, ex_row 1000], [ex_row 2000, ex_row 12000]]" for smb
    by (simp add: bt_serves_def ex_fetch_ok_def ex_row_def ex_ds_def bt_init_def)
  have h: "\<not> bt_is_preloaded ex_ds \<and> distinct (bt_symbols ex_ds) \<and> 0 < length (bt_symbols ex_ds) \<and>
    (\<forall>i<length (bt_symbols ex_ds). ex_world 0 i = Inr (F i)) \<and>
    bt_breaks (F 0) ex_ds (bt_symbols ex_ds ! 0) ''1m'' [[ex_row 500]] (Exception ''network down'') \<and>
    (\<forall>i<length (bt_symbols ex_ds). i \<noteq> 0 \<longrightarrow> bt_serves (F i) ex_ds (bt_symbols ex_ds ! i) ''1m'' (PG i))"
    using brk srv by (simp add: ex_ds_fields ex_world_def F_def PG_def)
  have s0: "ex_sworld 0 0 smb ''1970-01-01'' ''1970-01-01'' ''1d'' = Inl (Exception ''network down'')" for smb
    by (simp add: ex_sworld_def ex_history_fail_def)
  have s1: "ex_sworld 0 1 smb ''1970-01-01'' ''1970-01-01'' ''1d''
      = Inr (Some [ex_hrow 3000, ex_hrow 1000, ex_hrow 2000, ex_hrow 12000])" for smb
    by (simp add: ex_sworld_def ex_history_ok_def)
  have sh: "\<not> sb_is_preloaded ex_sds \<and> distinct (sb_symbols ex_sds) \<and> 0 < length (sb_symbols ex_sds) \<and>
    ex_utc_date (sb_start_ts ex_sds) = Inr ''1970-01-01'' \<and> ex_utc_date (sb_end_ts ex_sds) = Inr ''1970-01-01'' \<and>
    ''1d'' = (case interval_map ''1d'' of None \<Rightarrow> ''1d'' | Some v \<Rightarrow> v) \<and>
    ex_sworld 0 0 (sb_normalize_symbol (sb_symbols ex_sds ! 0)) ''1970-01-01'' ''1970-01-01'' ''1d''
      = Inl (Exception ''network down'') \<and>
    (\<forall>i<length (sb_symbols ex_sds). i \<noteq> 0 \<longrightarrow>
       ex_sworld 0 i (sb_normalize_symbol (sb_symbols ex_sds ! i)) ''1970-01-01'' ''1970-01-01'' ''1d'' = Inr (D i))"
    by (simp add: ex_sds_fields ex_sworld_def ex_history_fail_def ex_history_ok_def ex_utc_date_def D_def
        interval_map_def)
  note inst = preload_partial_failure[of ex_ds 0 ex_world F "''1m''" "[[ex_row 500]]" "Exception ''network down''" PG
      ex_sds ex_utc_date "''1970-01-01''" "''1970-01-01''" "''1d''" ex_sworld D]
  note sinst = preload_partial_failure[of ex_ds 0 ex_world F "''1d''" "[[ex_row 500]]" "Exception ''network down''" PG
      ex_sds ex_utc_date "''1970-01-01''" "''1970-01-01''" "''1d''" ex_sworld D]
  obtain ds' where run: "bt_preload_data ex_world (Some [''1m'']) ex_ds = Some (None, ds')"
    and e0: "cache_get (bt_candle_cache ds') (bt_symbols ex_ds ! 0) ''1m'' = []"
    and e1: "\<forall>i<length (bt_symbols ex_ds). i \<noteq> 0 \<longrightarrow>
               cache_get (bt_candle_cache ds') (bt_symbols ex_ds ! i) ''1m'' =
                 sort_key c_ts (concat (map (\<lambda>page. map (bt_row_candle ex_ds (bt_symbols ex_ds ! i) ''1m'')
                                              (takeWhile (\<lambda>row. r_ts row \<le> bt_end_ts ex_ds) page)) (PG i)))"
    using inst h by blast
  obtain sds' where srun: "sb_preload_data ex_utc_date ex_sworld (Some [''1d'']) ex_sds = (None, sds')"
    and q0: "cache_get (sb_candle_cache sds') (sb_symbols ex_sds ! 0) ''1d'' = []"
    and q1: "\<forall>i<length (sb_symbols ex_sds). i \<noteq> 0 \<longrightarrow>
               cache_get (sb_candle_cache sds') (sb_symbols ex_sds ! i) ''1d'' =
                 sort_key c_ts (map (sb_row_candle (sb_symbols ex_sds ! i) ''1d'')
                   (takeWhile (\<lambda>row. h_ts row \<le> sb_end_ts ex_sds) (case D i of None \<Rightarrow> [] | Some rows \<Rightarrow> rows)))"
    using sinst sh by blast
  have b: "cache_get (bt_candle_cache ds') ''BTC-USDT'' ''1m'' = []"
    using e0 by (simp add: ex_ds_fields)
  have n1: "bt_symbols ex_ds ! 1 = ''ETH-USDT''" and n1': "1 < length (bt_symbols ex_ds)"
    by (simp_all add: ex_ds_fields)
  have l1: "concat (map (\<lambda>page. map (bt_row_candle ex_ds ''ETH-USDT'' ''1m'')
                                 (takeWhile (\<lambda>row. r_ts row \<le> bt_end_ts ex_ds) page)) (PG 1))
            = map (ex_candle ''okx'' ''1m'' ''ETH-USDT'') [3000, 1000, 2000]"
    by (simp add: PG_def bt_row_candle_def ex_row_def ex_candle_def ex_ds_def bt_init_def)
  have "cache_get (bt_candle_cache ds') (bt_symbols ex_ds ! 1) ''1m'' =
      sort_key c_ts (concat (map (\<lambda>page. map (bt_row_candle ex_ds (bt_symbols ex_ds ! 1) ''1m'')
                                              (takeWhile (\<lambda>row. r_ts row \<le> bt_end_ts ex_ds) page)) (PG 1)))"
    using e1 n1' by simp
  then have e: "cache_get (bt_candle_cache ds') ''ETH-USDT'' ''1m'' = map (ex_candle ''okx'' ''1m'' ''ETH-USDT'') [1000, 2000, 3000]"
    by (simp only: n1 l1 ex_sorted)
  have q: "cache_get (sb_candle_cache sds') ''QQQ'' ''1d'' = []"
    using q0 by (simp add: ex_sds_fields)
  have m1: "sb_symbols ex_sds ! 1 = ''SPY''" and m1': "1 < length (sb_symbols ex_sds)"
    by (simp_all add: ex_sds_fields)
  have sl1: "map (sb_row_candle ''SPY'' ''1d'')
               (takeWhile (\<lambda>row. h_ts row \<le> sb_end_ts ex_sds) (case D 1 of None \<Rightarrow> [] | Some rows \<Rightarrow> rows))
             = map (ex_candle ''yfinance'' ''1d'' ''SPY'') [3000, 1000, 2000]"
    by (simp add: D_def sb_row_candle_def ex_hrow_def ex_candle_def ex_sds_def sb_init_def)
  have "cache_get (sb_candle_cache sds') (sb_symbols ex_sds ! 1) ''1d'' =
      sort_key c_ts (map (sb_row_candle (sb_symbols ex_sds ! 1) ''1d'')
        (takeWhile (\<lambda>row. h_ts row \<le> sb_end_ts ex_sds) (case D 1 of None \<Rightarrow> [] | Some rows \<Rightarrow> rows)))"
    using q1 m1' by simp
  then have s: "cache_get (sb_candle_cache sds') ''SPY'' ''1d'' = map (ex_candle ''yfinance'' ''1d'' ''SPY'') [1000, 2000, 3000]"
    by (simp only: m1 sl1 ex_sorted)
  show ?thesis using h sh brk srv s0 s1 run b e srun q s by blast
qed

text \<open>
  Claim C9 (idempotence). Once a call of \<^verbatim>\<open>preload_data\<close> has returned, a second call,
  with any intervals argument and whatever the provider would answer, returns without
  raising and leaves the whole state, and so the cache, the flag and the clock, as it was.
\<close>

theorem preload_idempotent:
  "(bt_preload_data world intervals ds = Some (None, ds')
      \<longrightarrow> bt_preload_data world' intervals' ds' = Some (None, ds')) \<and>
   (sb_preload_data utc_date sworld intervals sds = (None, sds')
      \<longrightarrow> sb_preload_data utc_date' sworld' intervals' sds' = (None, sds'))"
  using bt_preload_data_flag[of world intervals ds ds'] bt_preload_data_again[of ds' world' intervals']
    sb_preload_data_flag[of utc_date sworld intervals sds sds']
    sb_preload_data_again[of sds' utc_date' sworld' intervals']
  by blast

theorem preload_idempotent_witness:
  "(\<exists>ds'. bt_preload_data ex_world (Some [''1m'']) ex_ds = Some (None, ds') \<and>
      cache_get (bt_candle_cache ds') ''ETH-USDT'' ''1m'' = map (ex_candle ''okx'' ''1m'' ''ETH-USDT'') [1000, 2000, 3000] \<and>
      bt_preload_data (\<lambda>p j. Inl (Exception ''no such exchange'')) (Some [''5m'', ''1h'']) ds' = Some (None, ds')) \<and>
   (\<exists>sds'. sb_preload_data ex_utc_date ex_sworld (Some [''1d'']) ex_sds = (None, sds') \<and>
      cache_get (sb_candle_cache sds') ''SPY'' ''1d'' = map (ex_candle ''yfinance'' ''1d'' ''SPY'') [1000, 2000, 3000] \<and>
      sb_preload_data (\<lambda>ms. Inl (Exception ''year out of range'')) (\<lambda>p j. ex_history_fail) (Some [''5m'', ''1h'']) sds'
        = (None, sds'))"
proof -
  obtain ds' where run: "bt_preload_data ex_world (Some [''1m'']) ex_ds = Some (None, ds')"
    and got: "cache_get (bt_candle_cache ds') ''ETH-USDT'' ''1m'' = map (ex_candle ''okx'' ''1m'' ''ETH-USDT'') [1000, 2000, 3000]"
    using ex_preload by blast
  obtain sds' where srun: "sb_preload_data ex_utc_date ex_sworld (Some [''1d'']) ex_sds = (None, sds')"
    and sgot: "cache_get (sb_candle_cache sds') ''SPY'' ''1d'' = map (ex_candle ''yfinance'' ''1d'' ''SPY'') [1000, 2000, 3000]"
    using ex_spreload by blast
  note inst = preload_idempotent[of ex_world "Some [''1m'']" ex_ds ds'
      "\<lambda>p j. Inl (Exception ''no such exchange'')" "Some [''5m'', ''1h'']"
      ex_utc_date ex_sworld ex_sds sds' "\<lambda>ms. Inl (Exception ''year out of range'')" "\<lambda>p j. ex_history_fail"]
  have again: "bt_preload_data (\<lambda>p j. Inl (Exception ''no such exchange'')) (Some [''5m'', ''1h'']) ds' = Some (None, ds')"
    using inst run by blast
  note sinst = preload_idempotent[of ex_world "Some [''1d'']" ex_ds ds'
      "\<lambda>p j. Inl (Exception ''no such exchange'')" "Some [''5m'', ''1h'']"
      ex_utc_date ex_sworld ex_sds sds' "\<lambda>ms. Inl (Exception ''year out of range'')" "\<lambda>p j. ex_history_fail"]
  have sagain: "sb_preload_data (\<lambda>ms. Inl (Exception ''year out of range'')) (\<lambda>p j. ex_history_fail) (Some [''5m'', ''1h'']) sds'
        = (None, sds')"
    using sinst srun by blast
  show ?thesis using run got again srun sgot sagain by blast
qed

section \<open>Execution\<close>

subsection \<open>The loop\<close>

lemma execute_loop_append:
  "execute_loop env pm st (xs @ ys) =
     (fst (execute_loop env pm st xs) @ fst (execute_loop env pm (snd (execute_loop env pm st xs)) ys),
      snd (execute_loop env pm (snd (execute_loop env pm st xs)) ys))"
  by (induction xs arbitrary: st) (simp_all add: Let_def)

lemma execute_loop_length: "length (fst (execute_loop env pm st xs)) = length xs"
  by (induction xs arbitrary: st) (simp_all add: Let_def)

lemma execute_loop_nth:
  assumes "i < length xs"
  shows "fst (execute_loop env pm st xs) ! i =
           fst (execute_inst env pm (snd (execute_loop env pm st (take i xs))) (xs ! i))"
proof -
  have split: "xs = take i xs @ (xs ! i) # drop (Suc i) xs"
    using assms by (simp add: id_take_nth_drop)
  have "fst (execute_loop env pm st xs) ! i
        = fst (execute_loop env pm st (take i xs @ (xs ! i) # drop (Suc i) xs)) ! i"
    using split by simp
  also have "\<dots> = fst (execute_inst env pm (snd (execute_loop env pm st (take i xs))) (xs ! i))"
    using assms
    by (simp only: execute_loop_append fst_conv nth_append execute_loop_length length_take)
       (simp add: Let_def)
  finally show ?thesis .
qed

lemma execute_loop_state_Suc:
  assumes "i < length xs"
  shows "snd (execute_loop env pm st (take (Suc i) xs)) =
           snd (execute_inst env pm (snd (execute_loop env pm st (take i xs))) (xs ! i))"
  using assms by (simp add: take_Suc_conv_app_nth execute_loop_append Let_def)

lemma execute_inst_config:
  "gw_fee_bps (fst (snd (execute_inst env pm st inst))) = gw_fee_bps (fst st) \<and>
   gw_fee_per_share (fst (snd (execute_inst env pm st inst))) = gw_fee_per_share (fst st) \<and>
   gw_slippage_bps (fst (snd (execute_inst env pm st inst))) = gw_slippage_bps (fst st) \<and>
   gw_enforce_market_hours (fst (snd (execute_inst env pm st inst))) = gw_enforce_market_hours (fst st)"
  by (simp add: execute_inst_def Let_def)

lemma execute_loop_config:
  "gw_fee_bps (fst (snd (execute_loop env pm st xs))) = gw_fee_bps (fst st) \<and>
   gw_fee_per_share (fst (snd (execute_loop env pm st xs))) = gw_fee_per_share (fst st) \<and>
   gw_slippage_bps (fst (snd (execute_loop env pm st xs))) = gw_slippage_bps (fst st) \<and>
   gw_enforce_market_hours (fst (snd (execute_loop env pm st xs))) = gw_enforce_market_hours (fst st)"
  by (induction xs arbitrary: st) (simp_all add: Let_def execute_inst_config)

lemma state_before_loop:
  "state_before ex env st xs mf i =
     snd (execute_loop env (ex (case mf of None \<Rightarrow> [] | Some fs \<Rightarrow> fs)) st (take i xs))"
  by (simp add: state_before_def execute_def)

lemma execute_nth:
  "i < length xs \<Longrightarrow>
   fst (execute ex env st xs mf) ! i =
     fst (execute_inst env (ex (case mf of None \<Rightarrow> [] | Some fs \<Rightarrow> fs)) (state_before ex env st xs mf i) (xs ! i))"
  by (auto simp: execute_def state_before_loop execute_loop_nth)

lemma state_before_Suc:
  "i < length xs \<Longrightarrow>
   state_before ex env st xs mf (Suc i) =
     snd (execute_inst env (ex (case mf of None \<Rightarrow> [] | Some fs \<Rightarrow> fs)) (state_before ex env st xs mf i) (xs ! i))"
  by (simp add: state_before_loop execute_loop_state_Suc)

lemma state_before_config:
  "gw_fee_bps (fst (state_before ex env st xs mf i)) = gw_fee_bps (fst st) \<and>
   gw_fee_per_share (fst (state_before ex env st xs mf i)) = gw_fee_per_share (fst st) \<and>
   gw_slippage_bps (fst (state_before ex env st xs mf i)) = gw_slippage_bps (fst st) \<and>
   gw_enforce_market_hours (fst (state_before ex env st xs mf i)) = gw_enforce_market_hours (fst st)"
  by (simp add: state_before_loop execute_loop_config)

lemma state_before_zero: "state_before ex env st xs mf 0 = st"
  by (simp add: state_before_loop)

lemma execute_length: "length (fst (execute ex env st xs mf)) = length xs"
  by (simp add: execute_def execute_loop_length)

subsection \<open>One instruction\<close>

lemma execute_inst_closed:
  "fst (market_closed env (fst st) (snd st)) \<Longrightarrow>
   execute_inst env pm st inst =
     (rejected inst (resolve_side env inst) ''market_closed'',
      (fst st)\<lparr> gw_executed := gw_executed (fst st) @ [inst] \<rparr>,
      snd (market_closed env (fst st) (snd st)))"
  by (simp add: execute_inst_def Let_def)

lemma execute_inst_no_price:
  "\<not> fst (market_closed env (fst st) (snd st)) \<Longrightarrow>
   pf_le0 (ref_price_of (fst (get_current_price env (snd (market_closed env (fst st) (snd st))) (symbol (inst_instrument inst))))
      pm (symbol (inst_instrument inst))) \<Longrightarrow>
   fst (execute_inst env pm st inst) = rejected inst (resolve_side env inst) ''no_price_data''"
  by (simp add: execute_inst_def Let_def)

lemma execute_inst_filled:
  "\<not> fst (market_closed env (fst st) (snd st)) \<Longrightarrow>
   \<not> pf_le0 (ref_price_of (fst (get_current_price env (snd (market_closed env (fst st) (snd st))) (symbol (inst_instrument inst))))
      pm (symbol (inst_instrument inst))) \<Longrightarrow>
   fst (execute_inst env pm st inst) =
     filled (fst st) inst (resolve_side env inst)
       (ref_price_of (fst (get_current_price env (snd (market_closed env (fst st) (snd st))) (symbol (inst_instrument inst))))
          pm (symbol (inst_instrument inst)))"
  by (simp add: execute_inst_def Let_def)

lemma market_closed_log: "price_lookups (snd (market_closed env gw io)) = price_lookups io"
  by (simp add: market_closed_def)

lemma market_closed_iff:
  "fst (market_closed env gw io) \<longleftrightarrow>
     gw_enforce_market_hours gw \<and>
     (dt_weekday (wall_clock env (clock_reads io)) \<ge> 5 \<or>
      \<not> time_le (9, 30, 0, 0) (time_of (wall_clock env (clock_reads io))) \<or>
      \<not> time_le (time_of (wall_clock env (clock_reads io))) (16, 0, 0, 0))"
  by (auto simp: market_closed_def is_us_market_open_def Let_def)

lemma fallback_price_le0:
  "price_map smb \<noteq> Some NaN \<Longrightarrow>
   pf_le0 (fallback_price price_map smb) \<longleftrightarrow> \<not> (\<exists>p. price_map smb = Some (Num p) \<and> 0 < p)"
  by (cases "price_map smb"; cases "the (price_map smb)") (auto simp: fallback_price_def Let_def)

lemma ref_price_le0:
  "live \<noteq> Some NaN \<Longrightarrow> price_map smb \<noteq> Some NaN \<Longrightarrow>
   pf_le0 (ref_price_of live price_map smb) \<longleftrightarrow>
     \<not> (\<exists>p. live = Some (Num p) \<and> 0 < p) \<and> \<not> (\<exists>p. price_map smb = Some (Num p) \<and> 0 < p)"
  by (cases live; cases "the live") (auto simp: ref_price_of_def fallback_price_le0)

lemma rejected_fields:
  "tx_status (rejected inst side reason) = REJECTED \<and> tx_reason (rejected inst side reason) = Some reason \<and>
   tx_filled_qty (rejected inst side reason) = 0 \<and> tx_avg_exec_price (rejected inst side reason) = None \<and>
   tx_slippage_bps (rejected inst side reason) = None \<and> tx_fee_cost (rejected inst side reason) = None \<and>
   tx_requested_qty (rejected inst side reason) = inst_quantity inst"
  by (simp add: rejected_def)

lemma filled_status:
  "tx_status (filled gw inst side p) = FILLED \<and> tx_reason (filled gw inst side p) = None \<and>
   tx_side (filled gw inst side p) = side \<and>
   tx_requested_qty (filled gw inst side p) = inst_quantity inst \<and>
   tx_filled_qty (filled gw inst side p) = inst_quantity inst"
  by (simp add: filled_def Let_def)

lemma filled_fields:
  "tx_avg_exec_price (filled gw inst side (Num P)) =
     Some (Num (if side = BUY then P * (1 + slip_bps_of gw inst / 10000) else P * (1 - slip_bps_of gw inst / 10000))) \<and>
   tx_fee_cost (filled gw inst side (Num P)) =
     (let E = (if side = BUY then P * (1 + slip_bps_of gw inst / 10000) else P * (1 - slip_bps_of gw inst / 10000));
          F = E * inst_quantity inst * (gw_fee_bps gw / 10000) + inst_quantity inst * gw_fee_per_share gw
      in if 0 < F then Some (Num F) else None)"
  by (simp add: filled_def Let_def)

lemma filled_nan:
  "tx_avg_exec_price (filled gw inst side NaN) = Some NaN \<and> tx_fee_cost (filled gw inst side NaN) = None"
  by (simp add: filled_def Let_def)

subsection \<open>The example runs\<close>

lemmas ex_run_defs =
  ex_run_def execute_def execute_inst_def market_closed_def is_us_market_open_def time_of_def
  get_current_price_def ticker_price_def ref_price_of_def fallback_price_def resolve_side_def
  ex_env_def ex_io_def ex_inst_def ex_extract_def ex_gw_def ex_gw_free_def
  ex_tuesday_10_def ex_tuesday_17_def ex_ticker_def ex_ticker_down_def ex_ticker_nan_def first_truthy_def

lemma ex_run_closed:
  "ex_run ex_gw ex_tuesday_17 ex_ticker (ex_inst BUY None) = rejected (ex_inst BUY None) BUY ''market_closed''"
  by (simp add: ex_run_defs Let_def)

lemma ex_run_no_price:
  "ex_run ex_gw ex_tuesday_10 ex_ticker_down (ex_inst BUY None) = rejected (ex_inst BUY None) BUY ''no_price_data''"
  by (simp add: ex_run_defs Let_def)

lemma ex_run_buy:
  "ex_run ex_gw ex_tuesday_10 ex_ticker (ex_inst BUY None) = filled ex_gw (ex_inst BUY None) BUY (Num 100)"
  by (simp add: ex_run_defs Let_def)

lemma ex_run_sell:
  "ex_run ex_gw ex_tuesday_10 ex_ticker (ex_inst SELL (Some 25)) = filled ex_gw (ex_inst SELL (Some 25)) SELL (Num 100)"
  by (simp add: ex_run_defs Let_def)

lemma ex_run_zero:
  "ex_run ex_gw_free ex_tuesday_10 ex_ticker (ex_inst BUY (Some 0)) = filled ex_gw_free (ex_inst BUY (Some 0)) BUY (Num 100)"
  by (simp add: ex_run_defs Let_def)

lemma ex_run_nan:
  "ex_run ex_gw ex_tuesday_10 ex_ticker_nan (ex_inst BUY None) = filled ex_gw (ex_inst BUY None) BUY NaN"
  by (simp add: ex_run_defs Let_def)

subsection \<open>The claims\<close>

text \<open>
  Claim C7 (market closed). Let the gateway enforce market hours, and let the Eastern
  wall clock, read while \<^verbatim>\<open>execute\<close> handles its \<open>i\<close>-th instruction, show a Saturday or
  Sunday, a time before 09:30 or a time after 16:00. Then the \<open>i\<close>-th result is REJECTED
  with reason \<^verbatim>\<open>market_closed\<close> and filled quantity 0, it carries no execution price, no
  slippage and no fee, and no price lookup was made for that instruction.
\<close>

theorem market_closed_rejection:
  assumes "i < length insts"
    and "gw_enforce_market_hours (fst st)"
    and "now = wall_clock env (clock_reads (snd (state_before ex env st insts mf i)))"
    and "dt_weekday now \<ge> 5 \<or> \<not> time_le (9, 30, 0, 0) (time_of now) \<or> \<not> time_le (time_of now) (16, 0, 0, 0)"
    and "r = fst (execute ex env st insts mf) ! i"
  shows "tx_status r = REJECTED \<and> tx_reason r = Some ''market_closed'' \<and> tx_filled_qty r = 0 \<and>
         tx_avg_exec_price r = None \<and> tx_slippage_bps r = None \<and> tx_fee_cost r = None \<and>
         price_lookups (snd (state_before ex env st insts mf (Suc i))) =
           price_lookups (snd (state_before ex env st insts mf i))"
proof -
  let ?pm = "ex (case mf of None \<Rightarrow> [] | Some fs \<Rightarrow> fs)"
  let ?st = "state_before ex env st insts mf i"
  have closed: "fst (market_closed env (fst ?st) (snd ?st))"
    using assms(2-4) by (simp add: market_closed_iff state_before_config)
  have step: "execute_inst env ?pm ?st (insts ! i) =
     (rejected (insts ! i) (resolve_side env (insts ! i)) ''market_closed'',
      (fst ?st)\<lparr> gw_executed := gw_executed (fst ?st) @ [insts ! i] \<rparr>,
      snd (market_closed env (fst ?st) (snd ?st)))"
    by (rule execute_inst_closed[OF closed])
  have r: "r = rejected (insts ! i) (resolve_side env (insts ! i)) ''market_closed''"
    using assms(1,5) by (simp add: execute_nth step)
  have log: "price_lookups (snd (state_before ex env st insts mf (Suc i))) = price_lookups (snd ?st)"
    using assms(1) by (simp add: state_before_Suc step market_closed_log)
  show ?thesis using r log by (simp add: rejected_fields)
qed

theorem market_closed_rejection_witness:
  "gw_enforce_market_hours ex_gw \<and> \<not> time_le (time_of ex_tuesday_17) (16, 0, 0, 0) \<and>
   tx_status (ex_run ex_gw ex_tuesday_17 ex_ticker (ex_inst BUY None)) = REJECTED \<and>
   tx_reason (ex_run ex_gw ex_tuesday_17 ex_ticker (ex_inst BUY None)) = Some ''market_closed'' \<and>
   tx_filled_qty (ex_run ex_gw ex_tuesday_17 ex_ticker (ex_inst BUY None)) = 0 \<and>
   tx_fee_cost (ex_run ex_gw ex_tuesday_17 ex_ticker (ex_inst BUY None)) = None \<and>
   price_lookups (snd (state_before ex_extract (ex_env ex_tuesday_17 ex_ticker) (ex_gw, ex_io) [ex_inst BUY None] None (Suc 0)))
     = price_lookups (snd (state_before ex_extract (ex_env ex_tuesday_17 ex_ticker) (ex_gw, ex_io) [ex_inst BUY None] None 0))"
proof -
  have h1: "0 < length [ex_inst BUY None]" by simp
  have h2: "gw_enforce_market_hours (fst (ex_gw, ex_io))" by (simp add: ex_gw_def)
  have h3: "ex_tuesday_17 = wall_clock (ex_env ex_tuesday_17 ex_ticker)
      (clock_reads (snd (state_before ex_extract (ex_env ex_tuesday_17 ex_ticker) (ex_gw, ex_io) [ex_inst BUY None] None 0)))"
    by (simp add: ex_env_def)
  have late: "\<not> time_le (time_of ex_tuesday_17) (16, 0, 0, 0)"
    by (simp add: ex_tuesday_17_def time_of_def)
  then have h4: "dt_weekday ex_tuesday_17 \<ge> 5 \<or> \<not> time_le (9, 30, 0, 0) (time_of ex_tuesday_17) \<or>
      \<not> time_le (time_of ex_tuesday_17) (16, 0, 0, 0)"
    by blast
  have h5: "ex_run ex_gw ex_tuesday_17 ex_ticker (ex_inst BUY None) =
      fst (execute ex_extract (ex_env ex_tuesday_17 ex_ticker) (ex_gw, ex_io) [ex_inst BUY None] None) ! 0"
    by (simp add: ex_run_def)
  show ?thesis
    using market_closed_rejection[OF h1 h2 h3 h4 h5] h2 late by simp
qed

text \<open>
  When no \<^verbatim>\<open>nan\<close> is involved, \<^verbatim>\<open>execute\<close> rejects as specified: the \<open>i\<close>-th result
  has reason \<^verbatim>\<open>no_price_data\<close> exactly when the gate passed, the live lookup gave no
  positive price and the price map has no positive price for the symbol; such a result is
  REJECTED with filled quantity 0. In general the reason is produced exactly when the gate
  passed and the resolved price compares \<^verbatim>\<open><= 0\<close>.
\<close>

lemma no_price_data_exact:
  assumes "i < length insts"
    and "st_i = state_before ex env st insts mf i"
    and "gate = market_closed env (fst st_i) (snd st_i)"
    and "smb = symbol (inst_instrument (insts ! i))"
    and "live = fst (get_current_price env (snd gate) smb)"
    and "price_map = ex (case mf of None \<Rightarrow> [] | Some fs \<Rightarrow> fs)"
    and "r = fst (execute ex env st insts mf) ! i"
  shows "(tx_reason r = Some ''no_price_data'' \<longleftrightarrow> \<not> fst gate \<and> pf_le0 (ref_price_of live price_map smb)) \<and>
         (tx_reason r = Some ''no_price_data'' \<longrightarrow> tx_status r = REJECTED \<and> tx_filled_qty r = 0)"
proof -
  have r: "r = fst (execute_inst env price_map st_i (insts ! i))"
    using assms(1,2,6,7) by (simp add: execute_nth)
  let ?P = "ref_price_of live price_map smb"
  consider (closed) "fst gate" | (noprice) "\<not> fst gate" "pf_le0 ?P" | (fill) "\<not> fst gate" "\<not> pf_le0 ?P"
    by fastforce
  then show ?thesis
  proof cases
    case closed
    then show ?thesis
      using r assms(3-5) by (simp add: execute_inst_closed rejected_fields)
  next
    case noprice
    then show ?thesis
      using r assms(3-5) by (simp add: execute_inst_no_price rejected_fields)
  next
    case fill
    then show ?thesis
      using r assms(3-5) by (simp add: execute_inst_filled filled_status)
  qed
qed

lemma no_price_rejection_without_nan:
  assumes "i < length insts"
    and "st_i = state_before ex env st insts mf i"
    and "gate = market_closed env (fst st_i) (snd st_i)"
    and "smb = symbol (inst_instrument (insts ! i))"
    and "live = fst (get_current_price env (snd gate) smb)"
    and "price_map = ex (case mf of None \<Rightarrow> [] | Some fs \<Rightarrow> fs)"
    and "r = fst (execute ex env st insts mf) ! i"
    and "live \<noteq> Some NaN" and "price_map smb \<noteq> Some NaN"
  shows "tx_reason r = Some ''no_price_data'' \<longleftrightarrow>
           \<not> fst gate \<and> \<not> (\<exists>p. live = Some (Num p) \<and> 0 < p) \<and> \<not> (\<exists>p. price_map smb = Some (Num p) \<and> 0 < p)"
  using no_price_data_exact[OF assms(1-7)] ref_price_le0[of live price_map smb] assms(8,9) by blast

text \<open>
  Claim C3 (no price) is right and the code misses a case. The two guards are
  \<^verbatim>\<open>ref_price is None or ref_price <= 0\<close>, and \<^verbatim>\<open>nan <= 0\<close> is false. When the last
  one-minute bar of the feed has a \<^verbatim>\<open>nan\<close> Close, \<^verbatim>\<open>_get_current_price\<close> returns
  \<^verbatim>\<open>nan\<close>; with the market open and an empty price map neither source yields a positive
  price, and yet the order is not rejected: the result is FILLED, for the whole quantity,
  at the price \<^verbatim>\<open>nan\<close>, with no reason.
\<close>

theorem no_price_nan_is_filled:
  "fst (market_closed (ex_env ex_tuesday_10 ex_ticker_nan) ex_gw ex_io) = False \<and>
   fst (get_current_price (ex_env ex_tuesday_10 ex_ticker_nan)
          (snd (market_closed (ex_env ex_tuesday_10 ex_ticker_nan) ex_gw ex_io)) ''AAPL'') = Some NaN \<and>
   ex_extract [] ''AAPL'' = None \<and>
   tx_status (ex_run ex_gw ex_tuesday_10 ex_ticker_nan (ex_inst BUY None)) = FILLED \<and>
   tx_reason (ex_run ex_gw ex_tuesday_10 ex_ticker_nan (ex_inst BUY None)) = None \<and>
   tx_filled_qty (ex_run ex_gw ex_tuesday_10 ex_ticker_nan (ex_inst BUY None)) = 10 \<and>
   tx_avg_exec_price (ex_run ex_gw ex_tuesday_10 ex_ticker_nan (ex_inst BUY None)) = Some NaN \<and>
   tx_fee_cost (ex_run ex_gw ex_tuesday_10 ex_ticker_nan (ex_inst BUY None)) = None"
proof -
  have gate: "fst (market_closed (ex_env ex_tuesday_10 ex_ticker_nan) ex_gw ex_io) = False"
    by (simp add: market_closed_def is_us_market_open_def time_of_def ex_env_def ex_gw_def ex_io_def
        ex_tuesday_10_def)
  have live: "fst (get_current_price (ex_env ex_tuesday_10 ex_ticker_nan)
          (snd (market_closed (ex_env ex_tuesday_10 ex_ticker_nan) ex_gw ex_io)) ''AAPL'') = Some NaN"
    by (simp add: get_current_price_def ticker_price_def ex_env_def ex_ticker_nan_def)
  have pm: "ex_extract [] ''AAPL'' = None"
    by (simp add: ex_extract_def)
  have q: "inst_quantity (ex_inst BUY None) = 10"
    by (simp add: ex_inst_def)
  show ?thesis
    using gate live pm q by (simp add: ex_run_nan filled_status filled_nan)
qed

text \<open>
  Claim C2 as stated fails on two points. The result's \<^verbatim>\<open>fee_cost\<close> is the fee only when
  the fee is positive (\<^verbatim>\<open>fee_cost if fee_cost > 0 else None\<close>): with both fee parameters 0
  it is absent. And the override is read by \<^verbatim>\<open>inst.max_slippage_bps or self._slippage_bps\<close>:
  an override that is present and 0 is not used. Here: BUY of 10 at reference price 100,
  override 0, default 10 bps, no fees.
\<close>

theorem fill_postcondition_counterexample:
  "tx_status (ex_run ex_gw_free ex_tuesday_10 ex_ticker (ex_inst BUY (Some 0))) = FILLED \<and>
   tx_side (ex_run ex_gw_free ex_tuesday_10 ex_ticker (ex_inst BUY (Some 0))) = BUY \<and>
   tx_fee_cost (ex_run ex_gw_free ex_tuesday_10 ex_ticker (ex_inst BUY (Some 0))) = None \<and>
   tx_avg_exec_price (ex_run ex_gw_free ex_tuesday_10 ex_ticker (ex_inst BUY (Some 0))) = Some (Num (1001 / 10)) \<and>
   tx_avg_exec_price (ex_run ex_gw_free ex_tuesday_10 ex_ticker (ex_inst BUY (Some 0)))
     \<noteq> Some (Num (100 * (1 + 0 / 10000)))"
  unfolding ex_run_zero
  by (simp add: filled_def slip_bps_of_def ex_gw_free_def ex_inst_def Let_def)

text \<open>
  Claim C2, amended. For every instruction that is filled (the gate passed and a positive
  reference price \<open>P\<close> was resolved) and whose slippage override is absent or not 0: the
  result is FILLED, its filled quantity is its requested quantity, the instruction's,
  its execution price is \<open>P * (1 + s / 10000)\<close> for BUY and \<open>P * (1 - s / 10000)\<close> otherwise,
  where \<open>s\<close> is the override if present and else the configured default, and with
  \<open>F = exec_price * qty * (fee_bps / 10000) + qty * fee_per_share\<close> its \<^verbatim>\<open>fee_cost\<close> is \<open>F\<close>
  when \<open>F > 0\<close> and absent otherwise. (Floats are taken as reals.)
\<close>

theorem fill_postcondition:
  assumes "i < length insts"
    and "st_i = state_before ex env st insts mf i"
    and "inst = insts ! i"
    and "smb = symbol (inst_instrument inst)"
    and "gate = market_closed env (fst st_i) (snd st_i)"
    and "Num P = ref_price_of (fst (get_current_price env (snd gate) smb)) (ex (case mf of None \<Rightarrow> [] | Some fs \<Rightarrow> fs)) smb"
    and "r = fst (execute ex env st insts mf) ! i"
    and "s = (case inst_max_slippage_bps inst of None \<Rightarrow> gw_slippage_bps (fst st) | Some v \<Rightarrow> v)"
    and "E = (if tx_side r = BUY then P * (1 + s / 10000) else P * (1 - s / 10000))"
    and "F = E * inst_quantity inst * (gw_fee_bps (fst st) / 10000) + inst_quantity inst * gw_fee_per_share (fst st)"
    and "\<not> fst gate" and "0 < P"
    and "inst_max_slippage_bps inst \<noteq> Some 0"
  shows "tx_status r = FILLED \<and> tx_requested_qty r = inst_quantity inst \<and> tx_filled_qty r = tx_requested_qty r \<and>
         tx_avg_exec_price r = Some (Num E) \<and>
         tx_fee_cost r = (if 0 < F then Some (Num F) else None)"
proof -
  let ?pm = "ex (case mf of None \<Rightarrow> [] | Some fs \<Rightarrow> fs)"
  have ref: "ref_price_of (fst (get_current_price env (snd (market_closed env (fst st_i) (snd st_i))) (symbol (inst_instrument inst))))
      ?pm (symbol (inst_instrument inst)) = Num P"
    using assms(4-6) by simp
  have open_gate: "\<not> fst (market_closed env (fst st_i) (snd st_i))"
    using assms(5,11) by simp
  have "fst (execute_inst env ?pm st_i inst) = filled (fst st_i) inst (resolve_side env inst) (Num P)"
    using execute_inst_filled[of env st_i inst ?pm] open_gate assms(12) by (simp add: ref)
  then have r: "r = filled (fst st_i) inst (resolve_side env inst) (Num P)"
    using assms(1,2,3,7) by (simp add: execute_nth)
  have cfg: "gw_slippage_bps (fst st_i) = gw_slippage_bps (fst st)" "gw_fee_bps (fst st_i) = gw_fee_bps (fst st)"
    "gw_fee_per_share (fst st_i) = gw_fee_per_share (fst st)"
    using assms(2) by (simp_all add: state_before_config)
  have s: "slip_bps_of (fst st_i) inst = s"
    using assms(8,13) cfg by (auto simp: slip_bps_of_def split: option.splits)
  show ?thesis
    using assms(9,10) cfg by (simp add: r filled_status filled_fields s Let_def)
qed

theorem fill_postcondition_witness:
  "\<not> fst (market_closed (ex_env ex_tuesday_10 ex_ticker) ex_gw ex_io) \<and>
   Num 100 = ref_price_of (fst (get_current_price (ex_env ex_tuesday_10 ex_ticker)
        (snd (market_closed (ex_env ex_tuesday_10 ex_ticker) ex_gw ex_io)) ''AAPL'')) (ex_extract []) ''AAPL'' \<and>
   tx_status (ex_run ex_gw ex_tuesday_10 ex_ticker (ex_inst SELL (Some 25))) = FILLED \<and>
   tx_filled_qty (ex_run ex_gw ex_tuesday_10 ex_ticker (ex_inst SELL (Some 25))) = 10 \<and>
   tx_avg_exec_price (ex_run ex_gw ex_tuesday_10 ex_ticker (ex_inst SELL (Some 25))) = Some (Num (100 * (1 - 25 / 10000))) \<and>
   tx_fee_cost (ex_run ex_gw ex_tuesday_10 ex_ticker (ex_inst SELL (Some 25)))
     = Some (Num (100 * (1 - 25 / 10000) * 10 * (10 / 10000) + 10 * 0))"
proof -
  let ?env = "ex_env ex_tuesday_10 ex_ticker"
  let ?inst = "ex_inst SELL (Some 25)"
  let ?r = "ex_run ex_gw ex_tuesday_10 ex_ticker ?inst"
  have h1: "0 < length [?inst]" by simp
  have h2: "(ex_gw, ex_io) = state_before ex_extract ?env (ex_gw, ex_io) [?inst] None 0"
    by (simp add: state_before_zero)
  have h3: "?inst = [?inst] ! 0" by simp
  have h4: "''AAPL'' = symbol (inst_instrument ?inst)" by (simp add: ex_inst_def)
  have h5: "market_closed ?env ex_gw ex_io = market_closed ?env (fst (ex_gw, ex_io)) (snd (ex_gw, ex_io))"
    by simp
  have h6: "Num 100 = ref_price_of (fst (get_current_price ?env (snd (market_closed ?env ex_gw ex_io)) ''AAPL''))
      (ex_extract (case None of None \<Rightarrow> [] | Some fs \<Rightarrow> fs)) ''AAPL''"
    by (simp add: ref_price_of_def get_current_price_def ticker_price_def ex_env_def ex_ticker_def)
  have h7: "?r = fst (execute ex_extract ?env (ex_gw, ex_io) [?inst] None) ! 0"
    by (simp add: ex_run_def)
  have h8: "(25::real) = (case inst_max_slippage_bps ?inst of None \<Rightarrow> gw_slippage_bps (fst (ex_gw, ex_io)) | Some v \<Rightarrow> v)"
    by (simp add: ex_inst_def)
  have h9: "100 * (1 - 25 / 10000) = (if tx_side ?r = BUY then 100 * (1 + 25 / 10000) else (100::real) * (1 - 25 / 10000))"
    by (simp add: ex_run_sell filled_status)
  have h10: "100 * (1 - 25 / 10000) * 10 * (10 / 10000) + 10 * 0 =
      100 * (1 - 25 / 10000) * inst_quantity ?inst * (gw_fee_bps (fst (ex_gw, ex_io)) / 10000)
        + inst_quantity ?inst * gw_fee_per_share (fst (ex_gw, ex_io))"
    by (simp add: ex_inst_def ex_gw_def)
  have h11: "\<not> fst (market_closed ?env ex_gw ex_io)"
    by (simp add: market_closed_def is_us_market_open_def time_of_def ex_env_def ex_gw_def ex_io_def
        ex_tuesday_10_def)
  have h12: "(0::real) < 100" by simp
  have h13: "inst_max_slippage_bps ?inst \<noteq> Some 0" by (simp add: ex_inst_def)
  note inst = fill_postcondition[OF h1 h2 h3 h4 h5 h6 h7 h8 h9 h10 h11 h12 h13]
  have q: "inst_quantity ?inst = 10" by (simp add: ex_inst_def)
  have pos: "(0::real) < 100 * (1 - 25 / 10000) * 10 * (10 / 10000) + 10 * 0" by simp
  have h6': "Num 100 = ref_price_of (fst (get_current_price ?env (snd (market_closed ?env ex_gw ex_io)) ''AAPL''))
      (ex_extract []) ''AAPL''"
    using h6 by simp
  show ?thesis
    using inst q pos h11 h6' by (simp del: mult_zero_right)
qed

end
